theory Spec2Isabelle
  imports Main "HOL-Library.Sublist"
begin

section \<open>Python values\<close>

text \<open>
  A Python \<open>str\<close> is a sequence of Unicode code points, so it is modelled as a list of
  natural numbers; \<open>len\<close> is \<open>length\<close>, \<open>s[k:]\<close> is \<open>drop k s\<close>. Text of the source
  that is not ASCII is written by code point (\<open>0xCF54\<close> is U+CF54).
\<close>

type_synonym pystr = "nat list"

definition ascii :: "string \<Rightarrow> pystr" where
  "ascii s = map of_char s"

text \<open>
  What \<open>request.json\<close> and \<open>response.json()\<close> return: \<open>None\<close> (\<open>JNull\<close>), \<open>bool\<close>,
  \<open>int\<close>, \<open>str\<close>, \<open>list\<close> and \<open>dict\<close>. A \<open>dict\<close> is an association list read with
  \<open>map_of\<close>. The ids of GitLab are integers; numbers with a fraction are not modelled.
\<close>

datatype json =
    JNull
  | JBool bool
  | JInt int
  | JStr pystr
  | JArr "json list"
  | JObj "(pystr \<times> json) list"

text \<open>The exceptions that the operations of the source raise on a value of the wrong type.\<close>

datatype py_error = AttributeError | TypeError

text \<open>\<open>d.get(k, default)\<close>: only a \<open>dict\<close> has the method.\<close>

definition py_get :: "json \<Rightarrow> pystr \<Rightarrow> json \<Rightarrow> py_error + json" where
  "py_get d k dflt =
     (case d of
        JObj kvs \<Rightarrow> Inr (case map_of kvs k of Some v \<Rightarrow> v | None \<Rightarrow> dflt)
      | _ \<Rightarrow> Inl AttributeError)"

text \<open>\<open>k in d\<close> for a \<open>dict\<close> \<open>d\<close>.\<close>

definition has_key :: "pystr \<Rightarrow> json \<Rightarrow> bool" where
  "has_key k d = (case d of JObj kvs \<Rightarrow> map_of kvs k \<noteq> None | _ \<Rightarrow> False)"

text \<open>Truth value of an object, as \<open>if not changes_data\<close> takes it.\<close>

definition truthy :: "json \<Rightarrow> bool" where
  "truthy v =
     (case v of
        JNull \<Rightarrow> False
      | JBool b \<Rightarrow> b
      | JInt n \<Rightarrow> n \<noteq> 0
      | JStr s \<Rightarrow> s \<noteq> []
      | JArr xs \<Rightarrow> xs \<noteq> []
      | JObj kvs \<Rightarrow> kvs \<noteq> [])"

text \<open>
  \<open>for x in v\<close>: a list gives its elements, a \<open>dict\<close> its keys, a \<open>str\<close> its
  characters; the other values are not iterable.
\<close>

definition py_iter :: "json \<Rightarrow> py_error + json list" where
  "py_iter v =
     (case v of
        JArr xs \<Rightarrow> Inr xs
      | JObj kvs \<Rightarrow> Inr (map (\<lambda>kv. JStr (fst kv)) kvs)
      | JStr s \<Rightarrow> Inr (map (\<lambda>c. JStr [c]) s)
      | _ \<Rightarrow> Inl TypeError)"

text \<open>\<open>==\<close> on decoded values; \<open>bool\<close> is a subclass of \<open>int\<close>, so \<open>True == 1\<close>.\<close>

fun py_eq :: "json \<Rightarrow> json \<Rightarrow> bool" where
  "py_eq JNull JNull = True"
| "py_eq (JBool a) (JBool b) = (a = b)"
| "py_eq (JBool a) (JInt n) = (n = (if a then 1 else 0))"
| "py_eq (JInt n) (JBool a) = (n = (if a then 1 else 0))"
| "py_eq (JInt m) (JInt n) = (m = n)"
| "py_eq (JStr s) (JStr t) = (s = t)"
| "py_eq (JArr xs) (JArr ys) = list_all2 py_eq xs ys"
| "py_eq (JObj a) (JObj b) =
     (list_all (\<lambda>(k, v). case map_of b k of None \<Rightarrow> False | Some w \<Rightarrow> py_eq v w) a
      \<and> list_all (\<lambda>(k, w). map_of a k \<noteq> None) b)"
| "py_eq _ _ = False"

section \<open>String operations\<close>

text \<open>
  \<open>t in s\<close> is \<^const>\<open>sublist\<close> and \<open>s.find(t)\<close> the first index at which \<open>t\<close> is a
  prefix of the rest, \<open>-1\<close> when there is none.
\<close>

fun find_str :: "pystr \<Rightarrow> pystr \<Rightarrow> int" where
  "find_str t [] = (if t = [] then 0 else -1)"
| "find_str t (c # cs) =
     (if prefix t (c # cs) then 0
      else (let r = find_str t cs in if r < 0 then -1 else r + 1))"

text \<open>\<open>s.rfind(c)\<close> for a single character.\<close>

fun rfind_char :: "nat \<Rightarrow> pystr \<Rightarrow> int" where
  "rfind_char c [] = -1"
| "rfind_char c (x # xs) =
     (let r = rfind_char c xs in if 0 \<le> r then r + 1 else if x = c then 0 else -1)"

text \<open>
  \<open>str.lower()\<close>. The case table of Unicode is not part of the source. Three rows of
  it matter to the program, which only looks for ASCII and Hangul text in a lowered
  string: the letters A to Z, U+212A (KELVIN SIGN, lowered to \<open>k\<close>) and U+0130
  (LATIN CAPITAL LETTER I WITH DOT ABOVE, lowered to the two code points \<open>i\<close>, U+0307,
  the one row that changes the length). Every other code point is lowered to one code
  point that is neither ASCII nor Hangul and is kept as it is here.
\<close>

definition lower_char :: "nat \<Rightarrow> pystr" where
  "lower_char c =
     (if 0x41 \<le> c \<and> c \<le> 0x5A then [c + 0x20]
      else if c = 0x130 then [0x69, 0x307]
      else if c = 0x212A then [0x6B]
      else [c])"

definition lower :: "pystr \<Rightarrow> pystr" where
  "lower s = concat (map lower_char s)"

text \<open>\<open>str.strip()\<close> removes the code points for which \<open>str.isspace\<close> holds, at both ends.\<close>

definition is_space :: "nat \<Rightarrow> bool" where
  "is_space c \<longleftrightarrow>
     (0x09 \<le> c \<and> c \<le> 0x0D) \<or> (0x1C \<le> c \<and> c \<le> 0x20) \<or> c = 0x85 \<or> c = 0xA0
     \<or> c = 0x1680 \<or> (0x2000 \<le> c \<and> c \<le> 0x200A) \<or> c = 0x2028 \<or> c = 0x2029
     \<or> c = 0x202F \<or> c = 0x205F \<or> c = 0x3000"

definition strip :: "pystr \<Rightarrow> pystr" where
  "strip s = rev (dropWhile is_space (rev (dropWhile is_space s)))"

text \<open>
  \<open>os.path.splitext\<close> of \<open>posixpath\<close>: the extension starts at the last dot of the last
  path component, unless only dots come before it in that component.
\<close>

definition splitext :: "pystr \<Rightarrow> pystr \<times> pystr" where
  "splitext p =
     (let sepIndex = rfind_char 0x2F p;
          dotIndex = rfind_char 0x2E p
      in if sepIndex < dotIndex
            \<and> list_ex (\<lambda>c. c \<noteq> 0x2E) (take (nat (dotIndex - (sepIndex + 1))) (drop (nat (sepIndex + 1)) p))
         then (take (nat dotIndex) p, drop (nat dotIndex) p)
         else (p, []))"

definition py_splitext :: "json \<Rightarrow> py_error + pystr \<times> pystr" where
  "py_splitext v = (case v of JStr p \<Rightarrow> Inr (splitext p) | _ \<Rightarrow> Inl TypeError)"

section \<open>Text of the source\<close>

text \<open>
  \<open>BOT_SIGNATURE\<close> (line 32): U+1F916 (robot face), \<open>AI\<close>, and the two Hangul words
  U+CF54 U+B4DC and U+B9AC U+BDF0, separated by spaces.
\<close>

definition BOT_SIGNATURE :: pystr where
  "BOT_SIGNATURE =
     [0x1F916] @ ascii '' AI '' @ [0xCF54, 0xB4DC] @ ascii '' '' @ [0xB9AC, 0xBDF0]"

text \<open>The triggers of lines 425 and 438.\<close>

definition command_triggers :: "pystr list" where
  "command_triggers = [ascii ''@bot'', ascii ''/review'', ascii ''/analyze'']"

definition simple_triggers :: "pystr list" where
  "simple_triggers =
     [[0xCF54, 0xB4DC, 0xB9AC, 0xBDF0], [0xCF54, 0xB4DC] @ ascii '' '' @ [0xB9AC, 0xBDF0],
      [0xB9AC, 0xBDF0]]"

text \<open>The comment posted when the changes cannot be fetched (line 456).\<close>

definition fetch_failed_comment :: pystr where
  "fetch_failed_comment =
     [0xBCC0, 0xACBD] @ ascii '' '' @ [0xC0AC, 0xD56D, 0xC744] @ ascii '' '' @
     [0xAC00, 0xC838, 0xC62C] @ ascii '' '' @ [0xC218] @ ascii '' '' @ [0xC5C6, 0xC5B4] @
     ascii '' '' @ [0xCF54, 0xB4DC] @ ascii '' '' @ [0xB9AC, 0xBDF0, 0xB97C] @ ascii '' '' @
     [0xC218, 0xD589, 0xD560] @ ascii '' '' @ [0xC218] @ ascii '' '' @
     [0xC5C6, 0xC2B5, 0xB2C8, 0xB2E4] @ ascii ''.''"

text \<open>The pieces of the two posted review comments (lines 335 and 483).\<close>

definition comment_head :: pystr where
  "comment_head =
     [0xA] @ ascii ''## ''"

definition review_comment_tail :: pystr where
  "review_comment_tail =
     [0xA, 0xA] @ ascii ''---'' @ [0xA] @ ascii ''*'' @ [0xC774] @ ascii '' '' @
     [0xB9AC, 0xBDF0, 0xB294] @ ascii '' '' @ [0xC790, 0xB3D9, 0xC73C, 0xB85C] @
     ascii '' '' @ [0xC0DD, 0xC131, 0xB418, 0xC5C8, 0xC2B5, 0xB2C8, 0xB2E4] @
     ascii ''. [Git](https://github.com/PMRAZOR/Gitlab-MR-Review-Bot)*'' @ [0xA]"

definition request_comment_title :: pystr where
  "request_comment_title =
     ascii '' - '' @ [0xC0AC, 0xC6A9, 0xC790] @ ascii '' '' @ [0xC694, 0xCCAD, 0xA, 0xA]"

definition request_comment_by :: pystr where
  "request_comment_by =
     [0xA, 0xA] @ ascii ''---'' @ [0xA] @ ascii ''*'' @ [0xC774] @ ascii '' '' @
     [0xB9AC, 0xBDF0, 0xB294] @ ascii '' @''"

definition request_comment_tail :: pystr where
  "request_comment_tail =
     [0xB2D8, 0xC758] @ ascii '' '' @ [0xC694, 0xCCAD, 0xC5D0] @ ascii '' '' @
     [0xC758, 0xD574] @ ascii '' '' @
     [0xC0DD, 0xC131, 0xB418, 0xC5C8, 0xC2B5, 0xB2C8, 0xB2E4] @
     ascii ''. [Git](https://github.com/PMRAZOR/Gitlab-MR-Review-Bot)*'' @ [0xA]"

text \<open>
  The pieces of the two prompts (lines 114 to 163 and 191 to 239). The first piece runs
  up to the title; it is the only piece before the closing one that differs between the
  two functions.
\<close>

definition review_prompt_head :: pystr where
  "review_prompt_head =
     [0xA] @ ascii ''    '' @ [0xB2E4, 0xC74C] @ ascii '' GitLab Merge Request'' @ [0xC758] @
     ascii '' '' @ [0xCF54, 0xB4DC] @ ascii '' '' @ [0xBCC0, 0xACBD] @ ascii '' '' @
     [0xC0AC, 0xD56D, 0xC744] @ ascii '' '' @ [0xC2DC, 0xB2C8, 0xC5B4] @ ascii '' '' @
     [0xAC1C, 0xBC1C, 0xC790, 0xAC00] @ ascii '' '' @ [0xD574, 0xC900, 0xB2E4, 0xB294] @
     ascii '' '' @ [0xB290, 0xB08C, 0xC73C, 0xB85C] @ ascii '' '' @
     [0xBD84, 0xC11D, 0xD558, 0xACE0] @ ascii '' '' @
     [0xB9AC, 0xBDF0, 0xD574, 0xC8FC, 0xC138, 0xC694] @ ascii '':'' @ [0xA] @
     ascii ''    '' @ [0xA] @ ascii ''    MR '' @ [0xC81C, 0xBAA9] @ ascii '': ''"

definition comment_prompt_head :: pystr where
  "comment_prompt_head =
     [0xA] @ ascii ''    '' @ [0xB2E4, 0xC74C] @ ascii '' GitLab Merge Request'' @ [0xC758] @
     ascii '' '' @ [0xCF54, 0xB4DC] @ ascii '' '' @ [0xBCC0, 0xACBD] @ ascii '' '' @
     [0xC0AC, 0xD56D] @ ascii '' '' @ [0xC911] @ ascii '' '' @ [0xC81C, 0xAC00] @
     ascii '' '' @ [0xC6D0, 0xD558, 0xB294] @ ascii '' '' @ [0xBD80, 0xBD84, 0xB9CC] @
     ascii '' '' @ [0xC2DC, 0xB2C8, 0xC5B4] @ ascii '' '' @
     [0xAC1C, 0xBC1C, 0xC790, 0xAC00] @ ascii '' '' @ [0xD574, 0xC900, 0xB2E4, 0xB294] @
     ascii '' '' @ [0xB290, 0xB08C, 0xC73C, 0xB85C] @ ascii '' '' @
     [0xBD84, 0xC11D, 0xD558, 0xACE0] @ ascii '' '' @
     [0xB9AC, 0xBDF0, 0xD574, 0xC8FC, 0xC138, 0xC694] @ ascii '':'' @ [0xA] @
     ascii ''    '' @ [0xA] @ ascii ''    MR '' @ [0xC81C, 0xBAA9] @ ascii '': ''"

definition description_label :: pystr where
  "description_label =
     [0xA] @ ascii ''    MR '' @ [0xC124, 0xBA85] @ ascii '': ''"

definition prompt_indent :: pystr where
  "prompt_indent =
     [0xA] @ ascii ''    ''"

definition request_label :: pystr where
  "request_label =
     [0xA] @ ascii ''    '' @ [0xC0AC, 0xC6A9, 0xC790] @ ascii '' '' @ [0xC694, 0xCCAD] @
     ascii '': ''"

definition files_label :: pystr where
  "files_label =
     [0xA] @ ascii ''    '' @ [0xBCC0, 0xACBD, 0xB41C] @ ascii '' '' @ [0xD30C, 0xC77C] @
     ascii '':'' @ [0xA] @ ascii ''    ''"

definition unknown_file :: pystr where
  "unknown_file =
     [0xC54C] @ ascii '' '' @ [0xC218] @ ascii '' '' @ [0xC5C6, 0xB294] @ ascii '' '' @
     [0xD30C, 0xC77C]"

definition file_label :: pystr where
  "file_label =
     [0xA, 0xA, 0xD30C, 0xC77C] @ ascii '': ''"

definition diff_label :: pystr where
  "diff_label =
     [0xBCC0, 0xACBD, 0xC0AC, 0xD56D] @ ascii '':'' @ [0xA]"

definition no_diff :: pystr where
  "no_diff =
     [0xBCC0, 0xACBD, 0xC0AC, 0xD56D] @ ascii '' '' @ [0xC5C6, 0xC74C]"

definition review_closing :: pystr where
  "review_closing =
     [0xA] @ ascii ''    '' @ [0xC704] @ ascii '' '' @ [0xCF54, 0xB4DC] @ ascii '' '' @
     [0xBCC0, 0xACBD, 0xC0AC, 0xD56D, 0xC5D0] @ ascii '' '' @ [0xB300, 0xD558, 0xC5EC, 0xA] @
     ascii ''    '' @ [0xCF54, 0xB4DC] @ ascii '' '' @ [0xD488, 0xC9C8] @ ascii '', '' @
     [0xC7A0, 0xC7AC, 0xC801] @ ascii '' '' @ [0xBB38, 0xC81C, 0xC810] @ ascii '', '' @
     [0xC131, 0xB2A5] @ ascii '' '' @ [0xACE0, 0xB824, 0xC0AC, 0xD56D] @ ascii '', '' @
     [0xAC1C, 0xC120] @ ascii '' '' @ [0xC81C, 0xC548, 0xA] @ ascii ''    '' @ [0xC744] @
     ascii '' '' @ [0xAC04, 0xB7B5, 0xD558, 0xAC8C] @ ascii '' '' @ [0xB300, 0xB7B5] @
     ascii '' 500 ~ 700'' @ [0xC790] @ ascii '' '' @ [0xC548, 0xC73C, 0xB85C] @ ascii '' '' @
     [0xAD6C, 0xCCB4, 0xC801, 0xC778] @ ascii '' '' @ [0xCF54, 0xB4DC] @ ascii '' '' @
     [0xBD80, 0xBD84, 0xACFC] @ ascii '' '' @ [0xD568, 0xAED8] @ ascii '' '' @
     [0xBD84, 0xC11D, 0xD574, 0xC8FC, 0xC138, 0xC694] @ ascii ''.'' @ [0xA] @
     ascii ''    ''"

definition comment_closing :: pystr where
  "comment_closing =
     [0xA] @ ascii ''    '' @ [0xC704] @ ascii '' '' @ [0xCF54, 0xB4DC] @ ascii '' '' @
     [0xBCC0, 0xACBD, 0xC0AC, 0xD56D, 0xC5D0] @ ascii '' '' @ [0xC81C, 0xAC00] @
     ascii '' '' @ [0xC6D0, 0xD558, 0xB294] @ ascii '' '' @
     [0xBD80, 0xBD84, 0xC744, 0xC744, 0xA] @ ascii ''    '' @
     [0xAC04, 0xB7B5, 0xD558, 0xAC8C] @ ascii '' '' @ [0xB300, 0xB7B5] @ ascii '' 300'' @
     [0xC790] @ ascii '' '' @ [0xC548, 0xC73C, 0xB85C] @ ascii '' '' @
     [0xBD84, 0xC11D, 0xD574, 0xC8FC, 0xC138, 0xC694] @ ascii ''.'' @ [0xA] @
     ascii ''    ''"

definition analysis_error :: pystr where
  "analysis_error =
     [0xCF54, 0xB4DC] @ ascii '' '' @ [0xBD84, 0xC11D] @ ascii '' '' @ [0xC911] @
     ascii '' '' @ [0xC624, 0xB958, 0xAC00] @ ascii '' '' @
     [0xBC1C, 0xC0DD, 0xD588, 0xC2B5, 0xB2C8, 0xB2E4] @ ascii '': ''"

definition no_title :: pystr where
  "no_title =
     [0xC81C, 0xBAA9] @ ascii '' '' @ [0xC5C6, 0xC74C]"

definition no_description :: pystr where
  "no_description =
     [0xC124, 0xBA85] @ ascii '' '' @ [0xC5C6, 0xC74C]"

text \<open>The texts of the webhook's answers (lines 527 to 588).\<close>

definition unknown_kind :: pystr where
  "unknown_kind =
     [0xC54C] @ ascii '' '' @ [0xC218] @ ascii '' '' @ [0xC5C6, 0xC74C]"

definition msg_bad_json :: pystr where
  "msg_bad_json =
     [0xC798, 0xBABB, 0xB41C] @ ascii '' JSON '' @ [0xD615, 0xC2DD]"

definition msg_mr_accepted :: pystr where
  "msg_mr_accepted =
     ascii ''MR '' @ [0xC694, 0xCCAD, 0xC774] @ ascii '' '' @
     [0xC811, 0xC218, 0xB418, 0xC5C8, 0xC2B5, 0xB2C8, 0xB2E4] @ ascii ''. '' @
     [0xBC31, 0xADF8, 0xB77C, 0xC6B4, 0xB4DC, 0xC5D0, 0xC11C] @ ascii '' '' @
     [0xCC98, 0xB9AC, 0xB429, 0xB2C8, 0xB2E4] @ ascii ''.''"

definition msg_note_accepted :: pystr where
  "msg_note_accepted =
     [0xB178, 0xD2B8] @ ascii '' '' @ [0xC694, 0xCCAD, 0xC774] @ ascii '' '' @
     [0xC811, 0xC218, 0xB418, 0xC5C8, 0xC2B5, 0xB2C8, 0xB2E4] @ ascii ''. '' @
     [0xBC31, 0xADF8, 0xB77C, 0xC6B4, 0xB4DC, 0xC5D0, 0xC11C] @ ascii '' '' @
     [0xCC98, 0xB9AC, 0xB429, 0xB2C8, 0xB2E4] @ ascii ''.''"

definition msg_ignored :: pystr where
  "msg_ignored =
     [0xCC98, 0xB9AC, 0xD558, 0xC9C0] @ ascii '' '' @ [0xC54A, 0xB294] @ ascii '' '' @
     [0xC774, 0xBCA4, 0xD2B8] @ ascii '' '' @ [0xC720, 0xD615] @ ascii '': ''"

section \<open>The outside world\<close>

text \<open>
  The requests sent to GitLab, named by their URL under \<open>/api/v4/projects/\<close>:
  \<open>{project_id}/merge_requests/{mr_iid}/changes\<close> (GET),
  \<open>{project_id}/merge_requests\<close> (GET), \<open>{project_id}/merge_requests/{mr_iid}\<close> (GET)
  and \<open>{project_id}/merge_requests/{mr_iid}/notes\<close> (POST, with the comment as body).
\<close>

datatype gitlab_request =
    GetChanges json json
  | ListMergeRequests json
  | GetMergeRequest json json
  | PostNote json json pystr

text \<open>
  What \<open>requests.get\<close> and \<open>requests.post\<close> do: raise \<open>Timeout\<close>, raise another
  exception, or return a response with its status code and what \<open>response.json()\<close>
  gives (\<open>None\<close> when that call raises).
\<close>

datatype http_reply = Timeout | RequestFailed | Response nat "json option"

text \<open>
  \<open>model.generate_content(prompt)\<close> followed by \<open>response.text\<close>: the text, or an
  exception with its message.
\<close>

datatype generation = Generated pystr | GenerationFailed pystr

text \<open>
  The environment of one run: the answers of GitLab and of Gemini, and the text that
  \<open>str()\<close> gives for a decoded value that is not a \<open>str\<close> (an f-string field).
\<close>

record env =
  gitlab :: "gitlab_request \<Rightarrow> http_reply"
  gemini :: "pystr \<Rightarrow> generation"
  str_of :: "json \<Rightarrow> pystr"

definition py_str :: "env \<Rightarrow> json \<Rightarrow> pystr" where
  "py_str e v = (case v of JStr s \<Rightarrow> s | _ \<Rightarrow> str_of e v)"

text \<open>The outbound calls of a run, in the order in which they are made.\<close>

datatype call = GitLab gitlab_request | Gemini pystr

text \<open>
  How a background task ends: by an exception that nothing catches, or at one of the
  \<open>return\<close>s of the source. \<open>Finished ok\<close> is the end of the function after a review
  comment was sent, \<open>ok\<close> being what \<open>post_comment_to_mr\<close> returned. Logging is not
  modelled.
\<close>

datatype outcome =
    Raised py_error
  | IgnoredAction
  | FetchFailed
  | NotMergeRequestNote
  | SkippedBotComment
  | NoCommand
  | Finished bool

type_synonym run = "call list \<times> outcome"

definition attempt :: "py_error + 'a \<Rightarrow> ('a \<Rightarrow> run) \<Rightarrow> run" where
  "attempt r k = (case r of Inl err \<Rightarrow> ([], Raised err) | Inr v \<Rightarrow> k v)"

definition perform :: "call list \<times> 'a \<Rightarrow> ('a \<Rightarrow> run) \<Rightarrow> run" where
  "perform r k = (fst r @ fst (k (snd r)), snd (k (snd r)))"

section \<open>API client\<close>

text \<open>\<open>get_mr_changes\<close> (lines 35 to 62); \<open>None\<close> is \<open>JNull\<close>.\<close>

definition get_mr_changes :: "env \<Rightarrow> json \<Rightarrow> json \<Rightarrow> call list \<times> json" where
  "get_mr_changes e project_id mr_iid =
     ([GitLab (GetChanges project_id mr_iid)],
      case gitlab e (GetChanges project_id mr_iid) of
        Response status_code body \<Rightarrow>
          if status_code \<noteq> 200 then JNull
          else (case body of Some v \<Rightarrow> v | None \<Rightarrow> JNull)
      | Timeout \<Rightarrow> JNull
      | RequestFailed \<Rightarrow> JNull)"

text \<open>\<open>post_comment_to_mr\<close> (lines 251 to 293).\<close>

definition post_comment_to_mr :: "env \<Rightarrow> json \<Rightarrow> json \<Rightarrow> pystr \<Rightarrow> call list \<times> bool" where
  "post_comment_to_mr e project_id mr_iid comment =
     ([GitLab (PostNote project_id mr_iid comment)],
      case gitlab e (PostNote project_id mr_iid comment) of
        Response status_code body \<Rightarrow> status_code = 200 \<or> status_code = 201
      | Timeout \<Rightarrow> False
      | RequestFailed \<Rightarrow> False)"

section \<open>Review generator\<close>

text \<open>
  \<open>mr_info\<close> is built by the callers as a \<open>dict\<close> with exactly the keys \<open>title\<close> and
  \<open>description\<close>, so the defaults of \<open>mr_info.get\<close> are never used.
\<close>

record mr_info =
  title :: json
  description :: json

definition code_extensions :: "pystr list" where
  "code_extensions =
     [ascii ''.py'', ascii ''.js'', ascii ''.java'', ascii ''.cpp'', ascii ''.c'', ascii ''.h'',
      ascii ''.cs'', ascii ''.go'', ascii ''.rb'', ascii ''.php'', ascii ''.ts'', ascii ''.kt'',
      ascii ''.swift'']"

text \<open>
  The loop over the changes in \<open>analyze_with_gemini\<close> (lines 132 to 157), which
  appends to the prompt. An exception of the body leaves the function.
\<close>

fun review_changes :: "env \<Rightarrow> pystr \<Rightarrow> json list \<Rightarrow> py_error + pystr" where
  "review_changes e prompt [] = Inr prompt"
| "review_changes e prompt (change # rest) =
     (case py_get change (ascii ''old_path'') (JStr unknown_file) of
        Inl err \<Rightarrow> Inl err
      | Inr old_path \<Rightarrow>
     (case py_get change (ascii ''new_path'') old_path of
        Inl err \<Rightarrow> Inl err
      | Inr file_path \<Rightarrow>
     (case py_splitext file_path of
        Inl err \<Rightarrow> Inl err
      | Inr parts \<Rightarrow>
          if lower (snd parts) \<notin> set code_extensions then review_changes e prompt rest
          else
            (case py_get change (ascii ''diff'') (JStr no_diff) of
               Inl err \<Rightarrow> Inl err
             | Inr diff \<Rightarrow>
                 review_changes e
                   (prompt @ file_label @ py_str e file_path @ [0xA]
                      @ diff_label @ py_str e diff @ [0xA]) rest))))"

text \<open>The prompt that \<open>analyze_with_gemini\<close> has assembled at line 163.\<close>

definition review_prompt :: "env \<Rightarrow> json \<Rightarrow> mr_info \<Rightarrow> pystr option \<Rightarrow> py_error + pystr" where
  "review_prompt e changes_data mr_info user_prompt =
     (let prompt = review_prompt_head @ py_str e (title mr_info) @ description_label
                     @ py_str e (description mr_info) @ prompt_indent;
          prompt = (case user_prompt of
                      Some text \<Rightarrow>
                        if text \<noteq> [] then prompt @ request_label @ text @ prompt_indent
                        else prompt
                    | None \<Rightarrow> prompt);
          prompt = prompt @ files_label
      in case py_get changes_data (ascii ''changes'') (JArr []) of
           Inl err \<Rightarrow> Inl err
         | Inr changes \<Rightarrow>
        (case py_iter changes of
           Inl err \<Rightarrow> Inl err
         | Inr changes \<Rightarrow>
        (case review_changes e prompt changes of
           Inl err \<Rightarrow> Inl err
         | Inr prompt \<Rightarrow> Inr (prompt @ review_closing))))"

text \<open>\<open>analyze_with_gemini\<close> (lines 98 to 172).\<close>

definition analyze_with_gemini ::
  "env \<Rightarrow> json \<Rightarrow> mr_info \<Rightarrow> pystr option \<Rightarrow> call list \<times> (py_error + pystr)" where
  "analyze_with_gemini e changes_data mr_info user_prompt =
     (case review_prompt e changes_data mr_info user_prompt of
        Inl err \<Rightarrow> ([], Inl err)
      | Inr prompt \<Rightarrow>
          ([Gemini prompt],
           Inr (case gemini e prompt of
                  Generated text \<Rightarrow> text
                | GenerationFailed message \<Rightarrow> analysis_error @ message)))"

text \<open>
  The same three parts for \<open>analyze_with_gemini_for_comment\<close> (lines 175 to 248), which
  has its own copy of the loop and of the list of extensions.
\<close>

definition comment_code_extensions :: "pystr list" where
  "comment_code_extensions =
     [ascii ''.py'', ascii ''.js'', ascii ''.java'', ascii ''.cpp'', ascii ''.c'', ascii ''.h'',
      ascii ''.cs'', ascii ''.go'', ascii ''.rb'', ascii ''.php'', ascii ''.ts'', ascii ''.kt'',
      ascii ''.swift'']"

fun comment_changes :: "env \<Rightarrow> pystr \<Rightarrow> json list \<Rightarrow> py_error + pystr" where
  "comment_changes e prompt [] = Inr prompt"
| "comment_changes e prompt (change # rest) =
     (case py_get change (ascii ''old_path'') (JStr unknown_file) of
        Inl err \<Rightarrow> Inl err
      | Inr old_path \<Rightarrow>
     (case py_get change (ascii ''new_path'') old_path of
        Inl err \<Rightarrow> Inl err
      | Inr file_path \<Rightarrow>
     (case py_splitext file_path of
        Inl err \<Rightarrow> Inl err
      | Inr parts \<Rightarrow>
          if lower (snd parts) \<notin> set comment_code_extensions
          then comment_changes e prompt rest
          else
            (case py_get change (ascii ''diff'') (JStr no_diff) of
               Inl err \<Rightarrow> Inl err
             | Inr diff \<Rightarrow>
                 comment_changes e
                   (prompt @ file_label @ py_str e file_path @ [0xA]
                      @ diff_label @ py_str e diff @ [0xA]) rest))))"

definition comment_prompt :: "env \<Rightarrow> json \<Rightarrow> mr_info \<Rightarrow> pystr option \<Rightarrow> py_error + pystr" where
  "comment_prompt e changes_data mr_info user_prompt =
     (let prompt = comment_prompt_head @ py_str e (title mr_info) @ description_label
                     @ py_str e (description mr_info) @ prompt_indent;
          prompt = (case user_prompt of
                      Some text \<Rightarrow>
                        if text \<noteq> [] then prompt @ request_label @ text @ prompt_indent
                        else prompt
                    | None \<Rightarrow> prompt);
          prompt = prompt @ files_label
      in case py_get changes_data (ascii ''changes'') (JArr []) of
           Inl err \<Rightarrow> Inl err
         | Inr changes \<Rightarrow>
        (case py_iter changes of
           Inl err \<Rightarrow> Inl err
         | Inr changes \<Rightarrow>
        (case comment_changes e prompt changes of
           Inl err \<Rightarrow> Inl err
         | Inr prompt \<Rightarrow> Inr (prompt @ comment_closing))))"

definition analyze_with_gemini_for_comment ::
  "env \<Rightarrow> json \<Rightarrow> mr_info \<Rightarrow> pystr option \<Rightarrow> call list \<times> (py_error + pystr)" where
  "analyze_with_gemini_for_comment e changes_data mr_info user_prompt =
     (case comment_prompt e changes_data mr_info user_prompt of
        Inl err \<Rightarrow> ([], Inl err)
      | Inr prompt \<Rightarrow>
          ([Gemini prompt],
           Inr (case gemini e prompt of
                  Generated text \<Rightarrow> text
                | GenerationFailed message \<Rightarrow> analysis_error @ message)))"

section \<open>Command extractor\<close>

text \<open>
  The loop over \<open>command_triggers\<close> (lines 427 to 435): \<open>None\<close> when it leaves
  \<open>user_prompt\<close> unset. The index comes from the lowered body and cuts the body itself.
\<close>

fun scan_commands :: "pystr \<Rightarrow> pystr list \<Rightarrow> pystr option" where
  "scan_commands note_body [] = None"
| "scan_commands note_body (trigger # rest) =
     (if sublist trigger (lower note_body) then
        (let trigger_index = find_str trigger (lower note_body)
         in if trigger_index \<noteq> -1
            then Some (strip (drop (nat (trigger_index + int (length trigger))) note_body))
            else scan_commands note_body rest)
      else scan_commands note_body rest)"

text \<open>The loop over \<open>simple_triggers\<close> (lines 440 to 445).\<close>

fun scan_simple :: "pystr \<Rightarrow> pystr list \<Rightarrow> pystr option" where
  "scan_simple note_body [] = None"
| "scan_simple note_body (trigger # rest) =
     (if sublist trigger (lower note_body) then Some (strip note_body)
      else scan_simple note_body rest)"

text \<open>The value of \<open>user_prompt\<close> at line 447, for a body that is a \<open>str\<close>.\<close>

definition extract_user_prompt :: "pystr \<Rightarrow> pystr option" where
  "extract_user_prompt note_body =
     (case scan_commands note_body command_triggers of
        Some user_prompt \<Rightarrow> Some user_prompt
      | None \<Rightarrow> scan_simple note_body simple_triggers)"

text \<open>
  Lines 418 to 445 together, for a body that is a \<open>str\<close>: the instruction with which
  the handler goes on, \<open>None\<close> when it returns at line 421 or finds no trigger.
\<close>

definition command_of :: "pystr \<Rightarrow> pystr option" where
  "command_of note_body =
     (if sublist BOT_SIGNATURE note_body then None else extract_user_prompt note_body)"

text \<open>
  The same steps on a decoded value. \<open>note_body[:100]\<close> (line 416) needs a \<open>str\<close> or a
  list (on a \<open>dict\<close> it raises \<open>TypeError\<close>, \<open>KeyError\<close> from Python 3.12 on);
  \<open>BOT_SIGNATURE in note_body\<close> is a search in a \<open>str\<close> and a membership test in a
  list; \<open>note_body.lower()\<close> needs a \<open>str\<close>.
\<close>

definition py_slice :: "json \<Rightarrow> py_error + unit" where
  "py_slice v = (case v of JStr s \<Rightarrow> Inr () | JArr xs \<Rightarrow> Inr () | _ \<Rightarrow> Inl TypeError)"

definition has_signature :: "json \<Rightarrow> py_error + bool" where
  "has_signature v =
     (case v of
        JStr s \<Rightarrow> Inr (sublist BOT_SIGNATURE s)
      | JArr xs \<Rightarrow> Inr (list_ex (py_eq (JStr BOT_SIGNATURE)) xs)
      | JObj kvs \<Rightarrow> Inr (map_of kvs BOT_SIGNATURE \<noteq> None)
      | _ \<Rightarrow> Inl TypeError)"

definition py_extract_user_prompt :: "json \<Rightarrow> py_error + pystr option" where
  "py_extract_user_prompt v =
     (case v of JStr s \<Rightarrow> Inr (extract_user_prompt s) | _ \<Rightarrow> Inl AttributeError)"

section \<open>Background tasks\<close>

text \<open>\<open>process_mr_in_background\<close> (lines 296 to 353).\<close>

definition process_mr_in_background :: "env \<Rightarrow> json \<Rightarrow> run" where
  "process_mr_in_background e data =
     attempt (py_get data (ascii ''object_attributes'') (JObj [])) (\<lambda>attrs.
     attempt (py_get attrs (ascii ''action'') JNull) (\<lambda>action.
     if action \<noteq> JStr (ascii ''open'') \<and> action \<noteq> JStr (ascii ''update'')
     then ([], IgnoredAction)
     else
     attempt (py_get data (ascii ''object_attributes'') (JObj [])) (\<lambda>mr_attrs.
     attempt (py_get mr_attrs (ascii ''target_project_id'') JNull) (\<lambda>project_id.
     attempt (py_get mr_attrs (ascii ''iid'') JNull) (\<lambda>mr_iid.
     perform (get_mr_changes e project_id mr_iid) (\<lambda>changes_data.
     if \<not> truthy changes_data then ([], FetchFailed)
     else
     attempt (py_get mr_attrs (ascii ''title'') (JStr [])) (\<lambda>t.
     attempt (py_get mr_attrs (ascii ''description'') (JStr [])) (\<lambda>d.
     perform (analyze_with_gemini e changes_data \<lparr>title = t, description = d\<rparr> None) (\<lambda>r.
     attempt r (\<lambda>analysis_result.
     perform (post_comment_to_mr e project_id mr_iid
                (comment_head @ BOT_SIGNATURE @ [0xA, 0xA] @ analysis_result
                   @ review_comment_tail)) (\<lambda>success.
     ([], Finished success))))))))))))"

text \<open>
  The third way to the iid (lines 384 to 399): the loop over the listed merge requests,
  and the \<open>try\<close> around it, which catches every exception and then leaves \<open>mr_iid\<close>
  at \<open>None\<close>.
\<close>

fun match_mr :: "json \<Rightarrow> json list \<Rightarrow> py_error + json" where
  "match_mr noteable_id [] = Inr JNull"
| "match_mr noteable_id (mr # rest) =
     (case py_get mr (ascii ''id'') JNull of
        Inl err \<Rightarrow> Inl err
      | Inr mr_id \<Rightarrow>
          if py_eq mr_id noteable_id then py_get mr (ascii ''iid'') JNull
          else match_mr noteable_id rest)"

definition list_mr_iid :: "env \<Rightarrow> json \<Rightarrow> json \<Rightarrow> call list \<times> json" where
  "list_mr_iid e project_id noteable_id =
     ([GitLab (ListMergeRequests project_id)],
      case gitlab e (ListMergeRequests project_id) of
        Response status_code body \<Rightarrow>
          if status_code = 200 then
            (case body of
               None \<Rightarrow> JNull
             | Some mrs \<Rightarrow>
                 (case py_iter mrs of
                    Inl err \<Rightarrow> JNull
                  | Inr mrs \<Rightarrow>
                      (case match_mr noteable_id mrs of Inl err \<Rightarrow> JNull | Inr v \<Rightarrow> v)))
          else JNull
      | Timeout \<Rightarrow> JNull
      | RequestFailed \<Rightarrow> JNull)"

text \<open>The value of \<open>mr_iid\<close> at line 401 (lines 369 to 399).\<close>

definition resolve_mr_iid ::
  "env \<Rightarrow> json \<Rightarrow> json \<Rightarrow> json \<Rightarrow> json \<Rightarrow> json \<Rightarrow> call list \<times> (py_error + json)" where
  "resolve_mr_iid e data note project_id noteable_type noteable_id =
     (if noteable_type \<noteq> JStr (ascii ''MergeRequest'') then ([], Inr JNull)
      else
        (case py_get note (ascii ''noteable_iid'') JNull of
           Inl err \<Rightarrow> ([], Inl err)
         | Inr direct \<Rightarrow>
        (case (if direct = JNull \<and> has_key (ascii ''merge_request'') data
               then (case py_get data (ascii ''merge_request'') (JObj []) of
                       Inl err \<Rightarrow> Inl err
                     | Inr mr \<Rightarrow> py_get mr (ascii ''iid'') JNull)
               else Inr direct) of
           Inl err \<Rightarrow> ([], Inl err)
         | Inr nested \<Rightarrow>
             if nested = JNull
             then (fst (list_mr_iid e project_id noteable_id),
                   Inr (snd (list_mr_iid e project_id noteable_id)))
             else ([], Inr nested))))"

text \<open>The separate call for the title and the description (lines 461 to 474).\<close>

definition fetch_mr_info :: "env \<Rightarrow> json \<Rightarrow> json \<Rightarrow> call list \<times> mr_info" where
  "fetch_mr_info e project_id mr_iid =
     ([GitLab (GetMergeRequest project_id mr_iid)],
      let placeholder = \<lparr>title = JStr no_title, description = JStr no_description\<rparr>
      in case gitlab e (GetMergeRequest project_id mr_iid) of
           Response status_code body \<Rightarrow>
             if status_code = 200 then
               (case body of
                  None \<Rightarrow> placeholder
                | Some mr_data \<Rightarrow>
                    (case py_get mr_data (ascii ''title'') (JStr no_title) of
                       Inl err \<Rightarrow> placeholder
                     | Inr t \<Rightarrow>
                    (case py_get mr_data (ascii ''description'') (JStr no_description) of
                       Inl err \<Rightarrow> placeholder
                     | Inr d \<Rightarrow> \<lparr>title = t, description = d\<rparr>)))
             else placeholder
         | Timeout \<Rightarrow> placeholder
         | RequestFailed \<Rightarrow> placeholder)"

text \<open>The branch taken when a command was found (lines 449 to 497).\<close>

definition review_on_request :: "env \<Rightarrow> json \<Rightarrow> json \<Rightarrow> json \<Rightarrow> pystr \<Rightarrow> run" where
  "review_on_request e project_id mr_iid author_username user_prompt =
     perform (get_mr_changes e project_id mr_iid) (\<lambda>changes_data.
     if \<not> truthy changes_data
     then perform (post_comment_to_mr e project_id mr_iid fetch_failed_comment) (\<lambda>success.
          ([], FetchFailed))
     else
     perform (fetch_mr_info e project_id mr_iid) (\<lambda>mr_info.
     perform (analyze_with_gemini_for_comment e changes_data mr_info (Some user_prompt)) (\<lambda>r.
     attempt r (\<lambda>analysis_result.
     perform (post_comment_to_mr e project_id mr_iid
                (comment_head @ BOT_SIGNATURE @ request_comment_title @ analysis_result
                   @ request_comment_by @ py_str e author_username @ request_comment_tail))
       (\<lambda>success.
     ([], Finished success))))))"

text \<open>\<open>process_note_in_background\<close> (lines 356 to 504).\<close>

definition process_note_in_background :: "env \<Rightarrow> json \<Rightarrow> run" where
  "process_note_in_background e data =
     attempt (py_get data (ascii ''object_attributes'') (JObj [])) (\<lambda>note.
     attempt (py_get note (ascii ''id'') JNull) (\<lambda>note_id.
     attempt (py_get note (ascii ''note'') (JStr [])) (\<lambda>note_body.
     attempt (py_get data (ascii ''project'') (JObj [])) (\<lambda>project.
     attempt (py_get project (ascii ''id'') JNull) (\<lambda>project_id.
     attempt (py_get note (ascii ''noteable_type'') JNull) (\<lambda>noteable_type.
     attempt (py_get note (ascii ''noteable_id'') JNull) (\<lambda>noteable_id.
     perform (resolve_mr_iid e data note project_id noteable_type noteable_id) (\<lambda>r.
     attempt r (\<lambda>mr_iid.
     if noteable_type \<noteq> JStr (ascii ''MergeRequest'') \<or> mr_iid = JNull
     then ([], NotMergeRequestNote)
     else
     attempt (py_get data (ascii ''user'') (JObj [])) (\<lambda>author.
     attempt (py_get author (ascii ''username'') (JStr [])) (\<lambda>author_username.
     attempt (py_slice note_body) (\<lambda>u.
     attempt (has_signature note_body) (\<lambda>bot.
     if bot then ([], SkippedBotComment)
     else
     attempt (py_extract_user_prompt note_body) (\<lambda>user_prompt.
     case user_prompt of
       Some user_prompt \<Rightarrow> review_on_request e project_id mr_iid author_username user_prompt
     | None \<Rightarrow> ([], NoCommand)))))))))))))))"

section \<open>Webhook dispatcher\<close>

text \<open>
  A request to \<open>/webhook/gitlab\<close>: its method and what reading \<open>request.json\<close> gives,
  \<open>None\<close> when that raises. The route also lets \<open>HEAD\<close> through.
\<close>

datatype http_method = GET | POST | HEAD

record request =
  request_method :: http_method
  json_body :: "json option"

text \<open>The answer: the HTTP status and the two fields of the JSON document.\<close>

record response =
  http_status :: nat
  status :: pystr
  message :: pystr

text \<open>The thread that the handler starts.\<close>

datatype task = ProcessMR json | ProcessNote json

text \<open>
  \<open>gitlab_webhook\<close> (lines 521 to 592). \<open>data.get\<close> at line 546 is outside the \<open>try\<close>,
  so its exception leaves the handler.
\<close>

definition gitlab_webhook :: "env \<Rightarrow> request \<Rightarrow> py_error + response \<times> task option" where
  "gitlab_webhook e req =
     (if request_method req = GET
      then Inr (\<lparr>http_status = 200, status = ascii ''success'',
                  message = ascii ''Webhook endpoint is active''\<rparr>, None)
      else
        (case json_body req of
           None \<Rightarrow> Inr (\<lparr>http_status = 400, status = ascii ''error'',
                          message = msg_bad_json\<rparr>, None)
         | Some data \<Rightarrow>
             (case py_get data (ascii ''object_kind'') (JStr unknown_kind) of
                Inl err \<Rightarrow> Inl err
              | Inr object_kind \<Rightarrow>
                  if object_kind = JStr (ascii ''merge_request'')
                  then Inr (\<lparr>http_status = 202, status = ascii ''accepted'',
                              message = msg_mr_accepted\<rparr>, Some (ProcessMR data))
                  else if object_kind = JStr (ascii ''note'')
                  then Inr (\<lparr>http_status = 202, status = ascii ''accepted'',
                              message = msg_note_accepted\<rparr>, Some (ProcessNote data))
                  else Inr (\<lparr>http_status = 200, status = ascii ''ignored'',
                              message = msg_ignored @ py_str e object_kind\<rparr>, None))))"

text \<open>What the started thread does.\<close>

definition run_task :: "env \<Rightarrow> task \<Rightarrow> run" where
  "run_task e t =
     (case t of
        ProcessMR data \<Rightarrow> process_mr_in_background e data
      | ProcessNote data \<Rightarrow> process_note_in_background e data)"

section \<open>Example inputs\<close>

text \<open>An environment in which every call to GitLab times out and Gemini fails.\<close>

definition offline :: env where
  "offline =
     \<lparr>gitlab = (\<lambda>r. Timeout), gemini = (\<lambda>p. GenerationFailed []), str_of = (\<lambda>v. [])\<rparr>"

text \<open>A merge request event of project 1 for the merge request with iid 7.\<close>

definition mr_event :: "pystr \<Rightarrow> json" where
  "mr_event action =
     JObj [(ascii ''object_kind'', JStr (ascii ''merge_request'')),
           (ascii ''object_attributes'',
            JObj [(ascii ''action'', JStr action), (ascii ''target_project_id'', JInt 1),
                  (ascii ''iid'', JInt 7), (ascii ''title'', JStr (ascii ''Fix'')),
                  (ascii ''description'', JStr [])])]"

text \<open>A comment event of user \<open>alice\<close> on the same merge request.\<close>

definition note_event :: "pystr \<Rightarrow> json" where
  "note_event body =
     JObj [(ascii ''object_kind'', JStr (ascii ''note'')),
           (ascii ''object_attributes'',
            JObj [(ascii ''id'', JInt 5), (ascii ''note'', JStr body),
                  (ascii ''noteable_type'', JStr (ascii ''MergeRequest'')),
                  (ascii ''noteable_id'', JInt 70), (ascii ''noteable_iid'', JInt 7)]),
           (ascii ''project'', JObj [(ascii ''id'', JInt 1)]),
           (ascii ''user'', JObj [(ascii ''username'', JStr (ascii ''alice''))])]"

text \<open>Two change records and the answer of GitLab that holds them.\<close>

definition readme_change :: json where
  "readme_change =
     JObj [(ascii ''old_path'', JStr (ascii ''README.md'')),
           (ascii ''new_path'', JStr (ascii ''README.md'')),
           (ascii ''diff'', JStr (ascii ''+docs''))]"

definition main_change :: json where
  "main_change =
     JObj [(ascii ''old_path'', JStr (ascii ''main.go'')),
           (ascii ''new_path'', JStr (ascii ''main.go'')),
           (ascii ''diff'', JStr (ascii ''+code''))]"

definition example_changes :: json where
  "example_changes = JObj [(ascii ''changes'', JArr [readme_change, main_change])]"

text \<open>An environment in which GitLab and Gemini answer.\<close>

definition serving :: env where
  "serving =
     \<lparr>gitlab = (\<lambda>r. case r of
                      GetChanges p i \<Rightarrow> Response 200 (Some example_changes)
                    | ListMergeRequests p \<Rightarrow> Response 200 (Some (JArr []))
                    | GetMergeRequest p i \<Rightarrow>
                        Response 200 (Some (JObj [(ascii ''title'', JStr (ascii ''Fix'')),
                                                  (ascii ''description'', JStr [])]))
                    | PostNote p i c \<Rightarrow> Response 201 None),
      gemini = (\<lambda>p. Generated (ascii ''LGTM'')),
      str_of = (\<lambda>v. [])\<rparr>"

section \<open>Reading a run\<close>

text \<open>The calls of a run that fetch the changes, ask Gemini, and post a comment.\<close>

fun is_fetch :: "call \<Rightarrow> bool" where
  "is_fetch (GitLab (GetChanges p i)) = True"
| "is_fetch c = False"

fun is_generation :: "call \<Rightarrow> bool" where
  "is_generation (Gemini p) = True"
| "is_generation c = False"

fun is_post :: "call \<Rightarrow> bool" where
  "is_post (GitLab (PostNote p i c)) = True"
| "is_post c = False"

text \<open>A run that made no call other than listing the merge requests of a project.\<close>

definition listing_only :: "call list \<Rightarrow> bool" where
  "listing_only cs \<longleftrightarrow> list_all (\<lambda>c. case c of GitLab (ListMergeRequests p) \<Rightarrow> True | _ \<Rightarrow> False) cs"

section \<open>The file filter, in the words of the specification\<close>

text \<open>
  The path of a change record is \<open>new_path\<close> when present, otherwise \<open>old_path\<close>
  (otherwise the placeholder of line 133); its diff text is \<open>diff\<close> (otherwise the
  placeholder of line 157).
\<close>

definition change_path :: "(pystr \<times> json) list \<Rightarrow> json" where
  "change_path kvs =
     (case map_of kvs (ascii ''new_path'') of
        Some v \<Rightarrow> v
      | None \<Rightarrow> (case map_of kvs (ascii ''old_path'') of
                   Some v \<Rightarrow> v
                 | None \<Rightarrow> JStr unknown_file))"

definition change_diff :: "(pystr \<times> json) list \<Rightarrow> json" where
  "change_diff kvs = (case map_of kvs (ascii ''diff'') of Some v \<Rightarrow> v | None \<Rightarrow> JStr no_diff)"

text \<open>A path passes when the lowered extension is in the allow-list.\<close>

definition allowed :: "pystr \<Rightarrow> bool" where
  "allowed path \<longleftrightarrow> lower (snd (splitext path)) \<in> set code_extensions"

text \<open>The section of a file: its path and its raw diff text.\<close>

definition file_section :: "env \<Rightarrow> pystr \<Rightarrow> json \<Rightarrow> pystr" where
  "file_section e path diff = file_label @ path @ [0xA] @ diff_label @ py_str e diff @ [0xA]"

text \<open>What a change record adds to the prompt.\<close>

definition contribution :: "env \<Rightarrow> json \<Rightarrow> pystr" where
  "contribution e change =
     (case change of
        JObj kvs \<Rightarrow>
          (case change_path kvs of
             JStr path \<Rightarrow> if allowed path then file_section e path (change_diff kvs) else []
           | _ \<Rightarrow> [])
      | _ \<Rightarrow> [])"

text \<open>A change record: a JSON object whose path is a string.\<close>

definition is_change_record :: "json \<Rightarrow> bool" where
  "is_change_record change =
     (case change of
        JObj kvs \<Rightarrow> (case change_path kvs of JStr path \<Rightarrow> True | _ \<Rightarrow> False)
      | _ \<Rightarrow> False)"

section \<open>Basic facts\<close>

lemma attempt_simps:
  "attempt (Inl err) k = ([], Raised err)"
  "attempt (Inr v) k = k v"
  by (simp_all add: attempt_def)

lemma py_get_obj:
  "py_get (JObj kvs) k dflt = Inr (case map_of kvs k of Some v \<Rightarrow> v | None \<Rightarrow> dflt)"
  by (simp add: py_get_def)

lemma ascii_simps: "ascii [] = []" "ascii (c # s) = of_char c # ascii s"
  by (simp_all add: ascii_def)

section \<open>Webhook dispatcher: acknowledgements\<close>

text \<open>
  Claim C6, as the code has it. A GET is answered with 200. A POST whose body cannot be
  read as JSON is answered with 400 and status \<open>error\<close>. A POST whose payload is a JSON
  object is answered with 202 and status \<open>accepted\<close>, and the matching task is started,
  when \<open>object_kind\<close> is \<open>merge_request\<close> or \<open>note\<close>; with any other or no
  \<open>object_kind\<close> it is answered with 200 and status \<open>ignored\<close> and no task is started.
\<close>

theorem webhook_acknowledgement:
  "(request_method req = GET \<longrightarrow>
      (\<exists>r. gitlab_webhook e req = Inr (r, None) \<and> http_status r = 200))
   \<and> (request_method req = POST \<and> json_body req = None \<longrightarrow>
      (\<exists>r. gitlab_webhook e req = Inr (r, None) \<and> http_status r = 400
            \<and> status r = ascii ''error''))
   \<and> (request_method req = POST \<and> json_body req = Some (JObj kvs)
        \<and> map_of kvs (ascii ''object_kind'') = Some (JStr (ascii ''merge_request'')) \<longrightarrow>
      (\<exists>r. gitlab_webhook e req = Inr (r, Some (ProcessMR (JObj kvs)))
            \<and> http_status r = 202 \<and> status r = ascii ''accepted''))
   \<and> (request_method req = POST \<and> json_body req = Some (JObj kvs)
        \<and> map_of kvs (ascii ''object_kind'') = Some (JStr (ascii ''note'')) \<longrightarrow>
      (\<exists>r. gitlab_webhook e req = Inr (r, Some (ProcessNote (JObj kvs)))
            \<and> http_status r = 202 \<and> status r = ascii ''accepted''))
   \<and> (request_method req = POST \<and> json_body req = Some (JObj kvs)
        \<and> map_of kvs (ascii ''object_kind'') \<noteq> Some (JStr (ascii ''merge_request''))
        \<and> map_of kvs (ascii ''object_kind'') \<noteq> Some (JStr (ascii ''note'')) \<longrightarrow>
      (\<exists>r. gitlab_webhook e req = Inr (r, None) \<and> http_status r = 200
            \<and> status r = ascii ''ignored''))"
  by (auto simp: gitlab_webhook_def py_get_obj ascii_simps unknown_kind_def
      split: option.splits)

text \<open>
  Witness for C6: a GET, an unreadable POST, and POSTs of objects of kind
  \<open>merge_request\<close>, \<open>note\<close> and \<open>push\<close>.
\<close>

theorem webhook_acknowledgement_witness:
  "(\<exists>r. gitlab_webhook offline \<lparr>request_method = GET, json_body = None\<rparr> = Inr (r, None)
        \<and> http_status r = 200)
   \<and> (\<exists>r. gitlab_webhook offline \<lparr>request_method = POST, json_body = None\<rparr> = Inr (r, None)
        \<and> http_status r = 400 \<and> status r = ascii ''error'')
   \<and> (\<exists>r. gitlab_webhook offline
              \<lparr>request_method = POST,
                 json_body = Some (JObj [(ascii ''object_kind'', JStr (ascii ''merge_request''))])\<rparr>
            = Inr (r, Some (ProcessMR (JObj [(ascii ''object_kind'', JStr (ascii ''merge_request''))])))
        \<and> http_status r = 202 \<and> status r = ascii ''accepted'')
   \<and> (\<exists>r. gitlab_webhook offline
              \<lparr>request_method = POST,
                 json_body = Some (JObj [(ascii ''object_kind'', JStr (ascii ''note''))])\<rparr>
            = Inr (r, Some (ProcessNote (JObj [(ascii ''object_kind'', JStr (ascii ''note''))])))
        \<and> http_status r = 202 \<and> status r = ascii ''accepted'')
   \<and> (\<exists>r. gitlab_webhook offline
              \<lparr>request_method = POST,
                 json_body = Some (JObj [(ascii ''object_kind'', JStr (ascii ''push''))])\<rparr>
            = Inr (r, None)
        \<and> http_status r = 200 \<and> status r = ascii ''ignored'')"
  using
    webhook_acknowledgement
      [where req = "\<lparr>request_method = GET, json_body = None\<rparr>" and e = offline]
    webhook_acknowledgement
      [where req = "\<lparr>request_method = POST, json_body = None\<rparr>" and e = offline]
    webhook_acknowledgement
      [where req = "\<lparr>request_method = POST,
           json_body = Some (JObj [(ascii ''object_kind'', JStr (ascii ''merge_request''))])\<rparr>"
         and kvs = "[(ascii ''object_kind'', JStr (ascii ''merge_request''))]" and e = offline]
    webhook_acknowledgement
      [where req = "\<lparr>request_method = POST,
           json_body = Some (JObj [(ascii ''object_kind'', JStr (ascii ''note''))])\<rparr>"
         and kvs = "[(ascii ''object_kind'', JStr (ascii ''note''))]" and e = offline]
    webhook_acknowledgement
      [where req = "\<lparr>request_method = POST,
           json_body = Some (JObj [(ascii ''object_kind'', JStr (ascii ''push''))])\<rparr>"
         and kvs = "[(ascii ''object_kind'', JStr (ascii ''push''))]" and e = offline]
  by (simp add: ascii_simps)

text \<open>
  Counterexample to C6 as stated: a POST whose body parses to a JSON array is a parsed
  POST of another kind, yet the handler does not answer 200: \<open>data.get\<close> raises
  \<open>AttributeError\<close> outside the \<open>try\<close>.
\<close>

theorem webhook_array_payload_raises:
  "gitlab_webhook offline \<lparr>request_method = POST, json_body = Some (JArr [])\<rparr> = Inl AttributeError"
  by (simp add: gitlab_webhook_def py_get_def)

section \<open>Webhook dispatcher: merge request actions\<close>

text \<open>
  Claim C3, as the code has it. A payload of kind \<open>merge_request\<close> whose action is
  neither \<open>open\<close> nor \<open>update\<close> is answered with 202 and status \<open>accepted\<close> and its
  task is started; the task then returns at the action check without any outbound
  call, so no comment is posted.
\<close>

theorem other_action_accepted_then_dropped:
  assumes "request_method req = POST" and "json_body req = Some data"
    and "py_get data (ascii ''object_kind'') (JStr unknown_kind)
           = Inr (JStr (ascii ''merge_request''))"
    and "py_get data (ascii ''object_attributes'') (JObj []) = Inr attrs"
    and "py_get attrs (ascii ''action'') JNull = Inr action"
    and "action \<noteq> JStr (ascii ''open'')" and "action \<noteq> JStr (ascii ''update'')"
  shows "gitlab_webhook e req
           = Inr (\<lparr>http_status = 202, status = ascii ''accepted'', message = msg_mr_accepted\<rparr>,
                  Some (ProcessMR data))
         \<and> run_task e (ProcessMR data) = ([], IgnoredAction)"
  using assms
  by (simp add: gitlab_webhook_def run_task_def process_mr_in_background_def attempt_simps)

text \<open>Witness for C3: the event of a closed merge request.\<close>

theorem other_action_accepted_then_dropped_witness:
  "gitlab_webhook offline \<lparr>request_method = POST, json_body = Some (mr_event (ascii ''close''))\<rparr>
     = Inr (\<lparr>http_status = 202, status = ascii ''accepted'', message = msg_mr_accepted\<rparr>,
            Some (ProcessMR (mr_event (ascii ''close''))))
   \<and> run_task offline (ProcessMR (mr_event (ascii ''close''))) = ([], IgnoredAction)"
  using other_action_accepted_then_dropped
    [where req = "\<lparr>request_method = POST, json_body = Some (mr_event (ascii ''close''))\<rparr>"
       and data = "mr_event (ascii ''close'')"
       and attrs = "JObj [(ascii ''action'', JStr (ascii ''close'')),
                          (ascii ''target_project_id'', JInt 1), (ascii ''iid'', JInt 7),
                          (ascii ''title'', JStr (ascii ''Fix'')),
                          (ascii ''description'', JStr [])]"
       and action = "JStr (ascii ''close'')" and e = offline]
  by (simp add: mr_event_def py_get_obj ascii_simps)

text \<open>
  Counterexample to C3 as stated: for the event of a closed merge request the answer is
  202 with status \<open>accepted\<close>, not of the 200 class, and a background task is started.
\<close>

theorem closed_mr_is_accepted:
  "gitlab_webhook offline \<lparr>request_method = POST, json_body = Some (mr_event (ascii ''close''))\<rparr>
     = Inr (\<lparr>http_status = 202, status = ascii ''accepted'', message = msg_mr_accepted\<rparr>,
            Some (ProcessMR (mr_event (ascii ''close''))))"
  by (simp add: gitlab_webhook_def py_get_obj mr_event_def ascii_simps)

section \<open>Facts about strings and runs\<close>

lemma sublist_simps: "sublist (x # xs) (y # ys) = (prefix (x # xs) (y # ys) \<or> sublist (x # xs) ys)"
  by (rule sublist_code)

lemmas text_defs = ascii_def BOT_SIGNATURE_def fetch_failed_comment_def command_triggers_def
  simple_triggers_def lower_def lower_char_def strip_def is_space_def

lemma resolve_calls:
  "fst (resolve_mr_iid e data note project_id noteable_type noteable_id) = []
   \<or> fst (resolve_mr_iid e data note project_id noteable_type noteable_id)
       = [GitLab (ListMergeRequests project_id)]"
  by (simp add: resolve_mr_iid_def list_mr_iid_def split: sum.splits)

lemma listing_only_resolve:
  "listing_only (fst (resolve_mr_iid e data n project_id noteable_type noteable_id))"
  using resolve_calls [of e data n project_id noteable_type noteable_id]
  by (auto simp: listing_only_def)

lemma listing_only_Nil: "listing_only []"
  by (simp add: listing_only_def)

lemma listing_only_filter:
  "listing_only cs \<Longrightarrow> filter is_fetch cs = [] \<and> filter is_generation cs = [] \<and> filter is_post cs = []"
  by (induction cs) (auto simp: listing_only_def split: call.splits gitlab_request.splits)

lemma listing_only_fetch: "listing_only cs \<Longrightarrow> GitLab (GetChanges p i) \<notin> set cs"
  by (induction cs) (auto simp: listing_only_def split: call.splits gitlab_request.splits)



lemma attempt_cases:
  assumes "\<And>err. r = Inl err \<Longrightarrow> P ([], Raised err)"
    and "\<And>v. r = Inr v \<Longrightarrow> P (k v)"
  shows "P (attempt r k)"
  using assms by (cases r) (simp_all add: attempt_def)

text \<open>
  Every run of the note handler is of one of two kinds. Either it ends before line 448,
  having at most listed the merge requests: the note is not on a merge request whose iid
  can be found, or the body holds the signature, or it holds no trigger, or an exception
  was raised. Or it is the review of lines 449 to 497, run with the prompt that was
  extracted from a body without the signature.
\<close>

lemma process_note_cases [case_names quiet review]:
  assumes quiet: "\<And>pre out. listing_only pre \<Longrightarrow>
            out = NotMergeRequestNote \<or> out = SkippedBotComment \<or> out = NoCommand
              \<or> (\<exists>err. out = Raised err) \<Longrightarrow>
            (\<And>n body. py_get d (ascii ''object_attributes'') (JObj []) = Inr n \<Longrightarrow>
               py_get n (ascii ''note'') (JStr []) = Inr (JStr body) \<Longrightarrow>
               (out = SkippedBotComment \<longrightarrow> sublist BOT_SIGNATURE body)
               \<and> (out = NoCommand \<longrightarrow>
                    \<not> sublist BOT_SIGNATURE body \<and> extract_user_prompt body = None)) \<Longrightarrow>
            P (pre, out)"
    and review: "\<And>pre n body project_id mr_iid author user_prompt.
            py_get d (ascii ''object_attributes'') (JObj []) = Inr n \<Longrightarrow>
            py_get n (ascii ''note'') (JStr []) = Inr (JStr body) \<Longrightarrow>
            \<not> sublist BOT_SIGNATURE body \<Longrightarrow>
            extract_user_prompt body = Some user_prompt \<Longrightarrow>
            listing_only pre \<Longrightarrow>
            P (pre @ fst (review_on_request e project_id mr_iid author user_prompt),
               snd (review_on_request e project_id mr_iid author user_prompt))"
  shows "P (process_note_in_background e d)"
proof -
  have raised: "P (pre, Raised err)" if "listing_only pre" for pre err
    using that by (intro quiet) simp_all
  have not_mr: "P (pre, NotMergeRequestNote)" if "listing_only pre" for pre
    using that by (intro quiet) simp_all
  have raised0: "P ([], Raised err)" for err
    by (rule raised) (rule listing_only_Nil)
  note ends = raised not_mr listing_only_resolve
  note steps = perform_def attempt_def py_slice_def has_signature_def
    py_extract_user_prompt_def
  show ?thesis
    unfolding process_note_in_background_def
  proof (intro attempt_cases [where P = P] raised0, goal_cases)
    case (1 n note_id note_body project project_id noteable_type noteable_id)
    have body: "note_body = JStr body'"
      if "py_get d (ascii ''object_attributes'') (JObj []) = Inr n'"
        and "py_get n' (ascii ''note'') (JStr []) = Inr (JStr body')" for n' body'
      using that 1 by simp
    show ?case
    proof (cases note_body)
      case (JStr s)
      show ?thesis
      proof (cases "sublist BOT_SIGNATURE s")
        case True
        have skipped: "P (pre, SkippedBotComment)" if "listing_only pre" for pre
          using that body JStr True by (intro quiet) auto
        from JStr True show ?thesis
          by (simp add: steps ends skipped split: sum.splits)
      next
        case False
        show ?thesis
        proof (cases "extract_user_prompt s")
          case None
          have no_command: "P (pre, NoCommand)" if "listing_only pre" for pre
            using that body JStr False None by (intro quiet) auto
          from JStr False None show ?thesis
            by (simp add: steps ends no_command split: sum.splits)
        next
          case (Some user_prompt)
          have go: "P (pre @ fst (review_on_request e p i u user_prompt),
                       snd (review_on_request e p i u user_prompt))"
            if "listing_only pre" for pre p i u
            using 1 JStr False Some that by (intro review) simp_all
          from JStr False Some show ?thesis
            by (simp add: steps ends go split: sum.splits)
        qed
      qed
    next
      case (JArr xs)
      have skipped: "P (pre, SkippedBotComment)" if "listing_only pre" for pre
        using that body JArr by (intro quiet) auto
      from JArr show ?thesis
        by (simp add: steps ends skipped split: sum.splits)
    qed (simp_all add: steps ends split: sum.splits)
  qed
qed

lemma review_on_request_failed:
  assumes "snd (get_mr_changes e p i) = JNull"
  shows "review_on_request e p i u up
           = ([GitLab (GetChanges p i), GitLab (PostNote p i fetch_failed_comment)], FetchFailed)"
  using assms
  by (simp add: review_on_request_def perform_def get_mr_changes_def post_comment_to_mr_def
      truthy_def)

lemma review_on_request_fetch:
  "GitLab (GetChanges p i) \<in> set (fst (review_on_request e p' i' u up)) \<Longrightarrow> p = p' \<and> i = i'"
  by (auto simp: review_on_request_def perform_def attempt_def get_mr_changes_def
      post_comment_to_mr_def fetch_mr_info_def analyze_with_gemini_for_comment_def
      split: if_splits sum.splits)

section \<open>Command extractor: the bot's own comments\<close>

text \<open>
  Claim C1. When the body of the note is a string that contains \<open>BOT_SIGNATURE\<close>, no
  instruction is extracted, and the handler makes no call that fetches changes, asks
  Gemini or posts a comment: it returns at line 421, or earlier because the note is not
  on a merge request, or it is stopped by an exception of an earlier line.
\<close>

theorem bot_comment_not_processed:
  assumes "py_get data (ascii ''object_attributes'') (JObj []) = Inr n"
    and "py_get n (ascii ''note'') (JStr []) = Inr (JStr body)"
    and "sublist BOT_SIGNATURE body"
  shows "command_of body = None
    \<and> filter is_fetch (fst (process_note_in_background e data)) = []
    \<and> filter is_generation (fst (process_note_in_background e data)) = []
    \<and> filter is_post (fst (process_note_in_background e data)) = []
    \<and> (snd (process_note_in_background e data) = SkippedBotComment
       \<or> snd (process_note_in_background e data) = NotMergeRequestNote
       \<or> (\<exists>err. snd (process_note_in_background e data) = Raised err))"
proof -
  let ?P = "\<lambda>r. filter is_fetch (fst r) = [] \<and> filter is_generation (fst r) = []
    \<and> filter is_post (fst r) = []
    \<and> (snd r = SkippedBotComment \<or> snd r = NotMergeRequestNote \<or> (\<exists>err. snd r = Raised err))"
  have none: "command_of body = None"
    using assms(3) by (simp add: command_of_def)
  have "?P (process_note_in_background e data)"
  proof (rule process_note_cases [where P = ?P and e = e and d = data], goal_cases)
    case (1 pre out)
    from 1(3) [OF assms(1,2)] assms(3) have "out \<noteq> NoCommand"
      by auto
    with 1(1,2) show ?case
      by (auto simp: listing_only_filter)
  next
    case (2 pre n' body' project_id mr_iid author user_prompt)
    with assms none show ?case by simp
  qed
  with none show ?thesis by simp
qed

text \<open>Witness for C1: a note whose body is a comment that the bot itself has posted.\<close>

theorem bot_comment_not_processed_witness:
  "command_of (comment_head @ BOT_SIGNATURE @ [0xA, 0xA] @ ascii ''LGTM'' @ review_comment_tail)
     = None
   \<and> process_note_in_background offline
        (note_event (comment_head @ BOT_SIGNATURE @ [0xA, 0xA] @ ascii ''LGTM''
                       @ review_comment_tail))
      = ([], SkippedBotComment)"
proof -
  let ?body = "comment_head @ BOT_SIGNATURE @ [0xA, 0xA] @ ascii ''LGTM'' @ review_comment_tail"
  let ?n = "JObj [(ascii ''id'', JInt 5), (ascii ''note'', JStr ?body),
                  (ascii ''noteable_type'', JStr (ascii ''MergeRequest'')),
                  (ascii ''noteable_id'', JInt 70), (ascii ''noteable_iid'', JInt 7)]"
  have signed: "sublist BOT_SIGNATURE ?body"
    by (rule sublist_appendI)
  have attrs: "py_get (note_event ?body) (ascii ''object_attributes'') (JObj []) = Inr ?n"
    by (simp add: note_event_def py_get_obj ascii_simps)
  have body: "py_get ?n (ascii ''note'') (JStr []) = Inr (JStr ?body)"
    by (simp add: py_get_obj ascii_simps)
  have run: "process_note_in_background offline (note_event ?body) = ([], SkippedBotComment)"
    using signed
    by (simp add: process_note_in_background_def note_event_def py_get_obj ascii_simps
        attempt_simps perform_def resolve_mr_iid_def py_slice_def has_signature_def)
  from bot_comment_not_processed [OF attrs body signed, of offline] run show ?thesis
    by simp
qed

section \<open>Failed fetch of the changes\<close>

text \<open>
  Claim C7. Let \<open>get_mr_changes\<close> return \<open>None\<close> for a merge request. A full-review
  task that fetches its changes makes no other call and returns, so it posts nothing. A
  note task that fetches its changes then posts the one fallback comment, which is its
  only post and its last call, and returns. Neither ends by an exception.
\<close>

theorem failed_fetch_outcome:
  assumes "snd (get_mr_changes e p i) = JNull"
  shows "(GitLab (GetChanges p i) \<in> set (fst (process_mr_in_background e d)) \<longrightarrow>
            process_mr_in_background e d = ([GitLab (GetChanges p i)], FetchFailed))
       \<and> (GitLab (GetChanges p i) \<in> set (fst (process_note_in_background e d')) \<longrightarrow>
            (\<exists>pre. fst (process_note_in_background e d')
                     = pre @ [GitLab (GetChanges p i), GitLab (PostNote p i fetch_failed_comment)]
                   \<and> filter is_post pre = [])
            \<and> snd (process_note_in_background e d') = FetchFailed)"
proof (intro conjI)
  show "GitLab (GetChanges p i) \<in> set (fst (process_mr_in_background e d)) \<longrightarrow>
            process_mr_in_background e d = ([GitLab (GetChanges p i)], FetchFailed)"
    using assms
    by (auto simp: process_mr_in_background_def attempt_def perform_def get_mr_changes_def
        post_comment_to_mr_def analyze_with_gemini_def truthy_def
        split: sum.splits if_splits)
next
  let ?P = "\<lambda>r. GitLab (GetChanges p i) \<in> set (fst r) \<longrightarrow>
            (\<exists>pre. fst r
                     = pre @ [GitLab (GetChanges p i), GitLab (PostNote p i fetch_failed_comment)]
                   \<and> filter is_post pre = [])
            \<and> snd r = FetchFailed"
  show "?P (process_note_in_background e d')"
  proof (rule process_note_cases [where P = ?P and e = e and d = d'], goal_cases)
    case (1 pre out)
    then show ?case
      by (simp add: listing_only_fetch)
  next
    case (2 pre n body project_id mr_iid author user_prompt)
    show ?case
    proof (intro impI)
      assume "GitLab (GetChanges p i)
                \<in> set (fst (pre @ fst (review_on_request e project_id mr_iid author user_prompt),
                            snd (review_on_request e project_id mr_iid author user_prompt)))"
      with 2(5) have "p = project_id \<and> i = mr_iid"
        by (auto simp: listing_only_fetch dest: review_on_request_fetch)
      with assms 2(5) show "(\<exists>prea. fst (pre @ fst (review_on_request e project_id mr_iid author user_prompt),
                            snd (review_on_request e project_id mr_iid author user_prompt))
                     = prea @ [GitLab (GetChanges p i), GitLab (PostNote p i fetch_failed_comment)]
                   \<and> filter is_post prea = [])
            \<and> snd (pre @ fst (review_on_request e project_id mr_iid author user_prompt),
                            snd (review_on_request e project_id mr_iid author user_prompt)) = FetchFailed"
        by (simp add: review_on_request_failed listing_only_filter)
    qed
  qed
qed

text \<open>Witness for C7: an opened merge request and a \<open>/review\<close> note while GitLab times out.\<close>

theorem failed_fetch_outcome_witness:
  "process_mr_in_background offline (mr_event (ascii ''open''))
     = ([GitLab (GetChanges (JInt 1) (JInt 7))], FetchFailed)
   \<and> (\<exists>pre. fst (process_note_in_background offline (note_event (ascii ''/review'')))
              = pre @ [GitLab (GetChanges (JInt 1) (JInt 7)),
                       GitLab (PostNote (JInt 1) (JInt 7) fetch_failed_comment)]
            \<and> filter is_post pre = [])
   \<and> snd (process_note_in_background offline (note_event (ascii ''/review''))) = FetchFailed"
proof -
  have none: "snd (get_mr_changes offline (JInt 1) (JInt 7)) = JNull"
    by (simp add: get_mr_changes_def offline_def)
  have mr: "GitLab (GetChanges (JInt 1) (JInt 7))
              \<in> set (fst (process_mr_in_background offline (mr_event (ascii ''open''))))"
    by (simp add: process_mr_in_background_def mr_event_def py_get_obj ascii_simps
        attempt_simps perform_def get_mr_changes_def offline_def truthy_def)
  have cmd: "extract_user_prompt (ascii ''/review'') = Some []"
    by (simp add: extract_user_prompt_def text_defs sublist_simps)
  have sig: "\<not> sublist BOT_SIGNATURE (ascii ''/review'')"
    by (simp add: text_defs sublist_simps)
  have nt: "GitLab (GetChanges (JInt 1) (JInt 7))
              \<in> set (fst (process_note_in_background offline (note_event (ascii ''/review''))))"
    using cmd sig
    by (simp add: process_note_in_background_def note_event_def py_get_obj ascii_simps
        attempt_simps perform_def resolve_mr_iid_def py_slice_def has_signature_def
        py_extract_user_prompt_def review_on_request_failed [OF none])
  from failed_fetch_outcome [OF none, of "mr_event (ascii ''open'')"
      "note_event (ascii ''/review'')"] mr nt
  show ?thesis by simp
qed

section \<open>Signature of the posted comments\<close>

text \<open>
  Every comment that a task posts holds the signature, except the fallback comment of
  line 456.
\<close>

lemma listing_only_post: "listing_only cs \<Longrightarrow> GitLab (PostNote p i c) \<notin> set cs"
  by (induction cs) (auto simp: listing_only_def split: call.splits gitlab_request.splits)

lemma review_on_request_posts:
  "GitLab (PostNote p i c) \<in> set (fst (review_on_request e p' i' u up)) \<Longrightarrow>
     sublist BOT_SIGNATURE c \<or> c = fetch_failed_comment"
  by (auto simp: review_on_request_def perform_def attempt_def get_mr_changes_def
      post_comment_to_mr_def fetch_mr_info_def analyze_with_gemini_for_comment_def
      split: if_splits sum.splits)

lemma process_mr_posts:
  "GitLab (PostNote p i c) \<in> set (fst (process_mr_in_background e d)) \<Longrightarrow>
     sublist BOT_SIGNATURE c"
  by (auto simp: process_mr_in_background_def perform_def attempt_def get_mr_changes_def
      post_comment_to_mr_def analyze_with_gemini_def
      split: if_splits sum.splits)

lemma posted_comment_signed_or_fallback:
  assumes "GitLab (PostNote p i c) \<in> set (fst (run_task e t))"
  shows "sublist BOT_SIGNATURE c \<or> c = fetch_failed_comment"
proof (cases t)
  case (ProcessMR d)
  with assms show ?thesis
    by (auto simp: run_task_def dest: process_mr_posts)
next
  case (ProcessNote d)
  let ?P = "\<lambda>r. GitLab (PostNote p i c) \<in> set (fst r) \<longrightarrow>
              sublist BOT_SIGNATURE c \<or> c = fetch_failed_comment"
  have "?P (process_note_in_background e d)"
  proof (rule process_note_cases [where P = ?P and e = e and d = d], goal_cases)
    case (1 pre out)
    then show ?case by (simp add: listing_only_post)
  next
    case (2 pre n body project_id mr_iid author user_prompt)
    then show ?case
      by (auto simp: listing_only_post dest: review_on_request_posts)
  qed
  with assms ProcessNote show ?thesis
    by (simp add: run_task_def)
qed

text \<open>
  Claim C2 fails on the fallback comment. A \<open>/review\<close> note while the changes cannot be
  fetched makes the handler post \<open>fetch_failed_comment\<close>, which does not contain
  \<open>BOT_SIGNATURE\<close>; worse, the comment holds a simple trigger, so the note event that
  GitLab sends for it is not skipped but taken as a new command.
\<close>

theorem fallback_comment_unsigned:
  "process_note_in_background offline (note_event (ascii ''/review''))
     = ([GitLab (GetChanges (JInt 1) (JInt 7)),
         GitLab (PostNote (JInt 1) (JInt 7) fetch_failed_comment)], FetchFailed)
   \<and> \<not> sublist BOT_SIGNATURE fetch_failed_comment
   \<and> command_of fetch_failed_comment = Some fetch_failed_comment"
proof (intro conjI)
  have cmd: "command_of (ascii ''/review'') = Some []"
    by (simp add: command_of_def extract_user_prompt_def text_defs sublist_simps)
  show "process_note_in_background offline (note_event (ascii ''/review''))
     = ([GitLab (GetChanges (JInt 1) (JInt 7)),
         GitLab (PostNote (JInt 1) (JInt 7) fetch_failed_comment)], FetchFailed)"
    using cmd
    by (simp add: process_note_in_background_def note_event_def py_get_obj ascii_simps
        attempt_simps perform_def resolve_mr_iid_def py_slice_def has_signature_def
        py_extract_user_prompt_def command_of_def review_on_request_failed get_mr_changes_def
        offline_def split: if_splits)
  show "\<not> sublist BOT_SIGNATURE fetch_failed_comment"
    by (simp add: text_defs sublist_simps)
  show "command_of fetch_failed_comment = Some fetch_failed_comment"
    by (simp add: command_of_def extract_user_prompt_def text_defs sublist_simps)
qed

text \<open>
  The same run, read as the negation of C2: a comment is posted that lacks the signature.
\<close>

theorem fallback_comment_unsigned_witness:
  "\<exists>c. GitLab (PostNote (JInt 1) (JInt 7) c)
          \<in> set (fst (process_note_in_background offline (note_event (ascii ''/review''))))
        \<and> \<not> sublist BOT_SIGNATURE c"
  using fallback_comment_unsigned by (intro exI [of _ fetch_failed_comment]) simp

section \<open>Facts about the command extractor\<close>

lemma find_str_sublist: "sublist t s \<Longrightarrow> 0 \<le> find_str t s"
  by (induction s) (auto simp: sublist_Cons_right Let_def)

lemma find_str_first:
  "0 \<le> find_str t s \<Longrightarrow>
     prefix t (drop (nat (find_str t s)) s)
     \<and> nat (find_str t s) \<le> length s
     \<and> (\<forall>j < nat (find_str t s). \<not> prefix t (drop j s))"
proof (induction s)
  case Nil
  then show ?case by (simp split: if_splits)
next
  case (Cons c cs)
  show ?case
  proof (cases "prefix t (c # cs)")
    case True
    then show ?thesis by simp
  next
    case False
    with Cons.prems have r: "0 \<le> find_str t cs" and f: "find_str t (c # cs) = find_str t cs + 1"
      by (auto simp: Let_def split: if_splits)
    with Cons.IH have ih: "prefix t (drop (nat (find_str t cs)) cs)"
      "nat (find_str t cs) \<le> length cs"
      "\<forall>j < nat (find_str t cs). \<not> prefix t (drop j cs)"
      by auto
    have n: "nat (find_str t (c # cs)) = Suc (nat (find_str t cs))"
      using r f by simp
    have "\<not> prefix t (drop j (c # cs))" if "j < Suc (nat (find_str t cs))" for j
      using that False ih(3) by (cases j) auto
    with ih n show ?thesis by simp
  qed
qed

lemma lower_append: "lower (a @ b) = lower a @ lower b"
  by (simp add: lower_def)

lemma lower_plain:
  "0x130 \<notin> set s \<Longrightarrow> lower s = map (\<lambda>c. hd (lower_char c)) s"
  by (induction s) (auto simp: lower_def lower_char_def)

lemma lower_window:
  assumes "0x130 \<notin> set s"
  shows "lower (take n (drop j s)) = take n (drop j (lower s))"
proof -
  have "0x130 \<notin> set (take n (drop j s))"
    using assms by (meson in_set_dropD in_set_takeD)
  then show ?thesis
    using assms by (simp add: lower_plain take_map drop_map)
qed

lemma lower_length: "0x130 \<notin> set s \<Longrightarrow> length (lower s) = length s"
  by (simp add: lower_plain)

lemma scan_commands_find:
  "List.find (\<lambda>t. sublist t (lower body)) ts = Some t \<Longrightarrow>
     scan_commands body ts
       = Some (strip (drop (nat (find_str t (lower body)) + length t) body))"
proof (induction ts)
  case Nil
  then show ?case by simp
next
  case (Cons u us)
  show ?case
  proof (cases "sublist u (lower body)")
    case True
    with Cons.prems have "u = t" by simp
    with True find_str_sublist [of t "lower body"] show ?thesis
      by (simp add: Let_def nat_add_distrib)
  next
    case False
    with Cons show ?thesis by simp
  qed
qed

lemma scan_commands_none:
  "List.find (\<lambda>t. sublist t (lower body)) ts = None \<Longrightarrow> scan_commands body ts = None"
  by (induction ts) (auto split: if_splits)

lemma scan_simple_find:
  "scan_simple body ts = (if \<exists>t\<in>set ts. sublist t (lower body) then Some (strip body) else None)"
  by (induction ts) auto

text \<open>The text that follows the first match of a trigger.\<close>

lemma following_text:
  assumes plain: "0x130 \<notin> set body" and found: "sublist t (lower body)"
  shows "\<exists>pre m post. body = pre @ m @ post \<and> lower m = t
           \<and> (\<forall>j < length pre. lower (take (length t) (drop j body)) \<noteq> t)
           \<and> drop (nat (find_str t (lower body)) + length t) body = post"
proof -
  let ?s = "lower body"
  let ?i = "nat (find_str t ?s)"
  from found have "0 \<le> find_str t ?s"
    by (rule find_str_sublist)
  from find_str_first [OF this]
  have at: "prefix t (drop ?i ?s)" and le: "?i \<le> length ?s"
    and first: "\<forall>j < ?i. \<not> prefix t (drop j ?s)"
    by auto
  let ?pre = "take ?i body" and ?m = "take (length t) (drop ?i body)"
  let ?post = "drop (?i + length t) body"
  have split: "body = ?pre @ ?m @ ?post"
    by (metis add.commute append_take_drop_id drop_drop)
  from at have "take (length t) (drop ?i ?s) = t"
    by (auto simp: prefix_def)
  then have m: "lower ?m = t"
    using plain by (simp add: lower_window)
  have len: "length ?pre = ?i"
    using le plain by (simp add: lower_length)
  have "lower (take (length t) (drop j body)) \<noteq> t" if "j < ?i" for j
  proof
    assume "lower (take (length t) (drop j body)) = t"
    then have "take (length t) (drop j ?s) = t"
      using plain by (simp add: lower_window)
    then have "prefix t (drop j ?s)"
      by (metis take_is_prefix)
    with first that show False by simp
  qed
  with split m len show ?thesis
    by (intro exI [of _ ?pre] exI [of _ ?m] exI [of _ ?post]) simp
qed

lemma explicit_extraction:
  assumes "\<not> sublist BOT_SIGNATURE body" and "0x130 \<notin> set body"
    and "List.find (\<lambda>t. sublist t (lower body)) command_triggers = Some t"
  shows "\<exists>pre m post. body = pre @ m @ post \<and> lower m = t
           \<and> (\<forall>j < length pre. lower (take (length t) (drop j body)) \<noteq> t)
           \<and> command_of body = Some (strip post)"
proof -
  from assms(3) have found: "sublist t (lower body)"
    by (auto simp: find_Some_iff)
  from following_text [OF assms(2) found] obtain pre m post
    where parts: "body = pre @ m @ post" "lower m = t"
      "\<forall>j < length pre. lower (take (length t) (drop j body)) \<noteq> t"
      "drop (nat (find_str t (lower body)) + length t) body = post"
    by blast
  from assms(1) scan_commands_find [OF assms(3)] parts(4)
  have "command_of body = Some (strip post)"
    by (simp add: command_of_def extract_user_prompt_def)
  with parts(1-3) show ?thesis by blast
qed

lemma simple_trigger_lowered:
  assumes "p \<in> set simple_triggers" and "sublist p body"
  shows "sublist p (lower body)"
proof -
  from assms(1) have fixed: "lower p = p"
    by (auto simp: text_defs)
  from assms(2) obtain a b where "body = a @ p @ b"
    by (auto simp: sublist_def)
  then have "lower body = lower a @ p @ lower b"
    by (simp add: lower_append fixed)
  then show ?thesis by simp
qed

lemma dropWhile_rev_suffix:
  "length (dropWhile P (rev s)) \<le> length (dropWhile P (rev (a @ s)))"
proof (cases "\<forall>x\<in>set s. P x")
  case True
  then have "dropWhile P (rev s) = []" by simp
  then show ?thesis by (metis le0 list.size(3))
next
  case False
  then show ?thesis by (auto simp: dropWhile_append)
qed

lemma strip_shorter:
  assumes "m \<noteq> []" and "\<forall>c\<in>set m. \<not> is_space c"
  shows "length (strip post) < length (strip (pre @ m @ post))"
proof -
  from assms obtain x m' where m: "m = x # m'" and x: "\<not> is_space x"
    by (cases m) auto
  obtain y m'' where m_rev: "rev m = y # m''"
    using assms(1) by (cases "rev m") auto
  then have "y \<in> set (rev m)" by simp
  then have "y \<in> set m" by (simp only: set_rev)
  with assms(2) have y: "\<not> is_space y" by blast
  obtain u where left: "dropWhile is_space (pre @ m @ post) = u @ m @ post"
    using m x by (cases "\<forall>c\<in>set pre. is_space c") (auto simp: dropWhile_append)
  have "dropWhile is_space (rev post @ rev m @ rev u)
          = dropWhile is_space (rev post) @ rev m @ rev u"
    using m_rev y by (simp add: dropWhile_append)
  then have "length (strip (pre @ m @ post))
               = length (dropWhile is_space (rev post)) + length m + length u"
    by (simp add: strip_def left)
  moreover have "length (strip post) \<le> length (dropWhile is_space (rev post))"
    using dropWhile_rev_suffix [of is_space "dropWhile is_space post" "takeWhile is_space post"]
    by (simp add: strip_def)
  moreover have "0 < length m"
    using assms(1) by simp
  ultimately show ?thesis by linarith
qed

lemma space_is_lowered_to_itself: "is_space c \<Longrightarrow> lower_char c = [c]"
  by (auto simp: is_space_def lower_char_def)

lemma lowered_without_space:
  assumes "lower m = t" and "\<forall>c\<in>set t. \<not> is_space c"
  shows "\<forall>c\<in>set m. \<not> is_space c"
proof (intro ballI notI)
  fix c assume "c \<in> set m" and "is_space c"
  then have "c \<in> set (lower m)"
    by (auto simp: lower_def space_is_lowered_to_itself intro!: bexI [of _ c])
  with assms \<open>is_space c\<close> show False by auto
qed

text \<open>
  The index of line 430 is taken in the lowered body and applied to the body itself. The
  two differ in length when the body holds U+0130, and the cut is then misplaced.
\<close>

lemma dotted_capital_I_shifts_the_cut:
  "command_of ([0x130] @ ascii ''/reviewfoo'') = Some (ascii ''oo'')"
  by (simp add: command_of_def extract_user_prompt_def text_defs sublist_simps)

text \<open>With \<open>@bot\<close> in the body, the text after \<open>@bot\<close> is taken, not the text after \<open>/review\<close>.\<close>

lemma bot_mention_precedes_review:
  "command_of (ascii ''/review a @bot b '' @ [0xB9AC, 0xBDF0])
     = Some (ascii ''b '' @ [0xB9AC, 0xBDF0])"
  by (simp add: command_of_def extract_user_prompt_def text_defs sublist_simps)

section \<open>Command extractor: explicit triggers\<close>

text \<open>
  Claim C4, as the code has it. Let the body be without \<open>BOT_SIGNATURE\<close> and without
  U+0130, and let \<open>t\<close> be the first of \<open>@bot\<close>, \<open>/review\<close>, \<open>/analyze\<close>, in this order,
  that occurs in the lowered body. Then the body splits into a part \<open>pre\<close>, a part \<open>m\<close>
  that is \<open>t\<close> up to case, and a rest \<open>post\<close>, such that \<open>t\<close> matches at no position
  before \<open>m\<close>, and the extracted instruction is \<open>post\<close> stripped. The body
  \<open>/analyze please check null checks\<close> gives \<open>please check null checks\<close>.
\<close>

theorem explicit_trigger_instruction:
  assumes "\<not> sublist BOT_SIGNATURE body" and "0x130 \<notin> set body"
    and "List.find (\<lambda>t. sublist t (lower body)) command_triggers = Some t"
  shows "(\<exists>pre m post. body = pre @ m @ post \<and> lower m = t
           \<and> (\<forall>j < length pre. lower (take (length t) (drop j body)) \<noteq> t)
           \<and> command_of body = Some (strip post))
         \<and> command_of (ascii ''/analyze please check null checks'')
             = Some (ascii ''please check null checks'')"
proof
  show "\<exists>pre m post. body = pre @ m @ post \<and> lower m = t
           \<and> (\<forall>j < length pre. lower (take (length t) (drop j body)) \<noteq> t)
           \<and> command_of body = Some (strip post)"
    using assms by (rule explicit_extraction)
  show "command_of (ascii ''/analyze please check null checks'')
             = Some (ascii ''please check null checks'')"
    by (simp add: command_of_def extract_user_prompt_def text_defs sublist_simps)
qed

text \<open>Witness for C4: a body with \<open>/Review\<close> in mixed case after other text.\<close>

theorem explicit_trigger_instruction_witness:
  "(\<exists>pre m post. ascii ''Please /Review the tests '' = pre @ m @ post
        \<and> lower m = ascii ''/review''
        \<and> (\<forall>j < length pre.
              lower (take (length (ascii ''/review'')) (drop j (ascii ''Please /Review the tests '')))
                \<noteq> ascii ''/review'')
        \<and> command_of (ascii ''Please /Review the tests '') = Some (strip post))
   \<and> command_of (ascii ''/analyze please check null checks'')
       = Some (ascii ''please check null checks'')
   \<and> command_of (ascii ''Please /Review the tests '') = Some (ascii ''the tests'')"
proof -
  let ?body = "ascii ''Please /Review the tests ''"
  have sig: "\<not> sublist BOT_SIGNATURE ?body"
    by (simp add: text_defs sublist_simps)
  have plain: "0x130 \<notin> set ?body"
    by (simp add: ascii_def)
  have first: "List.find (\<lambda>t. sublist t (lower ?body)) command_triggers = Some (ascii ''/review'')"
    by (simp add: text_defs sublist_simps)
  have "command_of ?body = Some (ascii ''the tests'')"
    by (simp add: command_of_def extract_user_prompt_def text_defs sublist_simps)
  with explicit_trigger_instruction [OF sig plain first] show ?thesis
    by simp
qed

text \<open>
  Counterexample to C4 as stated: a body that holds \<open>/review\<close> and, after it, the
  signature yields no instruction at all, since the handler returns at line 421.
\<close>

theorem trigger_beside_signature_ignored:
  "sublist (ascii ''/review'') (lower (ascii ''/review '' @ BOT_SIGNATURE))
   \<and> command_of (ascii ''/review '' @ BOT_SIGNATURE) = None"
  by (simp add: command_of_def lower_append) (simp add: text_defs)

section \<open>Command extractor: simple triggers\<close>

text \<open>
  Claim C5, as the code has it. For a body without \<open>BOT_SIGNATURE\<close>: when no explicit
  trigger occurs in the lowered body and one of the three phrases occurs in the body, the
  instruction is the whole body, stripped. When \<open>/review\<close> occurs in the lowered body,
  \<open>@bot\<close> does not, and the body holds no U+0130, then also with a phrase in the body
  the instruction is the stripped text after the first \<open>/review\<close>, which differs from
  the stripped body. The body U+CF54 U+B4DC, space, U+B9AC U+BDF0, space, U+BD80 U+D0C1
  U+B4DC U+B824 U+C694 gives itself.
\<close>

theorem simple_trigger_instruction:
  "(\<not> sublist BOT_SIGNATURE body \<longrightarrow>
      (\<forall>t\<in>set command_triggers. \<not> sublist t (lower body)) \<longrightarrow>
      (\<exists>p\<in>set simple_triggers. sublist p body) \<longrightarrow>
      command_of body = Some (strip body))
   \<and> (\<not> sublist BOT_SIGNATURE body' \<longrightarrow> 0x130 \<notin> set body' \<longrightarrow>
      sublist (ascii ''/review'') (lower body') \<longrightarrow>
      \<not> sublist (ascii ''@bot'') (lower body') \<longrightarrow>
      (\<exists>p\<in>set simple_triggers. sublist p body') \<longrightarrow>
      (\<exists>pre m post. body' = pre @ m @ post \<and> lower m = ascii ''/review''
         \<and> (\<forall>j < length pre.
                lower (take (length (ascii ''/review'')) (drop j body')) \<noteq> ascii ''/review'')
         \<and> command_of body' = Some (strip post)
         \<and> strip post \<noteq> strip body'))
   \<and> command_of [0xCF54, 0xB4DC, 0x20, 0xB9AC, 0xBDF0, 0x20, 0xBD80, 0xD0C1, 0xB4DC, 0xB824, 0xC694]
       = Some [0xCF54, 0xB4DC, 0x20, 0xB9AC, 0xBDF0, 0x20, 0xBD80, 0xD0C1, 0xB4DC, 0xB824, 0xC694]"
proof (intro conjI impI)
  assume "\<not> sublist BOT_SIGNATURE body"
    and none: "\<forall>t\<in>set command_triggers. \<not> sublist t (lower body)"
    and "\<exists>p\<in>set simple_triggers. sublist p body"
  then have "\<exists>p\<in>set simple_triggers. sublist p (lower body)"
    by (blast intro: simple_trigger_lowered)
  moreover from none have "List.find (\<lambda>t. sublist t (lower body)) command_triggers = None"
    by (simp add: find_None_iff)
  ultimately show "command_of body = Some (strip body)"
    using \<open>\<not> sublist BOT_SIGNATURE body\<close>
    by (simp add: command_of_def extract_user_prompt_def scan_commands_none scan_simple_find)
next
  assume sig: "\<not> sublist BOT_SIGNATURE body'" and plain: "0x130 \<notin> set body'"
    and review: "sublist (ascii ''/review'') (lower body')"
    and bot: "\<not> sublist (ascii ''@bot'') (lower body')"
  then have "List.find (\<lambda>t. sublist t (lower body')) command_triggers = Some (ascii ''/review'')"
    by (simp add: command_triggers_def)
  from explicit_extraction [OF sig plain this] obtain pre m post
    where parts: "body' = pre @ m @ post" "lower m = ascii ''/review''"
      "\<forall>j < length pre.
          lower (take (length (ascii ''/review'')) (drop j body')) \<noteq> ascii ''/review''"
      "command_of body' = Some (strip post)"
    by blast
  from parts(2) have "m \<noteq> []"
    by (auto simp: lower_def ascii_def)
  moreover have "\<forall>c\<in>set m. \<not> is_space c"
    using parts(2) by (rule lowered_without_space) (simp add: ascii_def is_space_def)
  ultimately have "length (strip post) < length (strip (pre @ m @ post))"
    by (rule strip_shorter)
  with parts(1) have "strip post \<noteq> strip body'"
    by auto
  with parts show "\<exists>pre m post. body' = pre @ m @ post \<and> lower m = ascii ''/review''
         \<and> (\<forall>j < length pre.
                lower (take (length (ascii ''/review'')) (drop j body')) \<noteq> ascii ''/review'')
         \<and> command_of body' = Some (strip post)
         \<and> strip post \<noteq> strip body'"
    by blast
next
  show "command_of [0xCF54, 0xB4DC, 0x20, 0xB9AC, 0xBDF0, 0x20, 0xBD80, 0xD0C1, 0xB4DC, 0xB824, 0xC694]
       = Some [0xCF54, 0xB4DC, 0x20, 0xB9AC, 0xBDF0, 0x20, 0xBD80, 0xD0C1, 0xB4DC, 0xB824, 0xC694]"
    by (simp add: command_of_def extract_user_prompt_def text_defs sublist_simps)
qed

text \<open>
  Witness for C5: the phrase alone in a sentence, and \<open>/review\<close> followed by the phrase
  U+B9AC U+BDF0.
\<close>

theorem simple_trigger_instruction_witness:
  "command_of ([0x20] @ [0xCF54, 0xB4DC, 0x20, 0xB9AC, 0xBDF0, 0x20, 0xBD80, 0xD0C1, 0xB4DC, 0xB824, 0xC694] @ [0x20]) = Some (strip ([0x20] @ [0xCF54, 0xB4DC, 0x20, 0xB9AC, 0xBDF0, 0x20, 0xBD80, 0xD0C1, 0xB4DC, 0xB824, 0xC694] @ [0x20]))
   \<and> (\<exists>pre m post. ascii ''/review '' @ [0xB9AC, 0xBDF0] = pre @ m @ post
         \<and> lower m = ascii ''/review''
         \<and> (\<forall>j < length pre.
                lower (take (length (ascii ''/review'')) (drop j (ascii ''/review '' @ [0xB9AC, 0xBDF0])))
                  \<noteq> ascii ''/review'')
         \<and> command_of (ascii ''/review '' @ [0xB9AC, 0xBDF0]) = Some (strip post)
         \<and> strip post \<noteq> strip (ascii ''/review '' @ [0xB9AC, 0xBDF0]))"
proof -
  let ?b = "[0x20] @ [0xCF54, 0xB4DC, 0x20, 0xB9AC, 0xBDF0, 0x20, 0xBD80, 0xD0C1, 0xB4DC, 0xB824, 0xC694] @ [0x20]"
  let ?c = "ascii ''/review '' @ [0xB9AC, 0xBDF0]"
  have b1: "\<not> sublist BOT_SIGNATURE ?b"
    by (simp add: text_defs sublist_simps)
  have b2: "\<forall>t\<in>set command_triggers. \<not> sublist t (lower ?b)"
    by (simp add: text_defs sublist_simps)
  have b3: "\<exists>p\<in>set simple_triggers. sublist p ?b"
    by (simp add: text_defs sublist_simps)
  have c1: "\<not> sublist BOT_SIGNATURE ?c"
    by (simp add: text_defs sublist_simps)
  have c2: "0x130 \<notin> set ?c"
    by (simp add: ascii_def)
  have c3: "sublist (ascii ''/review'') (lower ?c)"
    by (simp add: text_defs sublist_simps)
  have c4: "\<not> sublist (ascii ''@bot'') (lower ?c)"
    by (simp add: text_defs sublist_simps)
  have c5: "\<exists>p\<in>set simple_triggers. sublist p ?c"
    by (simp add: text_defs sublist_simps)
  from simple_trigger_instruction [of ?b ?c] b1 b2 b3 c1 c2 c3 c4 c5 show ?thesis
    by blast
qed

text \<open>
  Counterexample to C5 as stated: \<open>BOT_SIGNATURE\<close> itself holds no explicit trigger and
  holds the phrase U+CF54 U+B4DC, space, U+B9AC U+BDF0, yet no instruction is extracted
  from it.
\<close>

theorem signature_holds_simple_trigger:
  "\<not> sublist (ascii ''@bot'') (lower BOT_SIGNATURE)
   \<and> \<not> sublist (ascii ''/review'') (lower BOT_SIGNATURE)
   \<and> \<not> sublist (ascii ''/analyze'') (lower BOT_SIGNATURE)
   \<and> sublist [0xCF54, 0xB4DC, 0x20, 0xB9AC, 0xBDF0] BOT_SIGNATURE
   \<and> command_of BOT_SIGNATURE = None"
  by (simp add: command_of_def) (simp add: text_defs sublist_simps)

section \<open>Facts about the prompt builders\<close>

lemma review_changes_record:
  assumes "change_path kvs = JStr path"
  shows "review_changes e prompt (JObj kvs # rest)
           = review_changes e (prompt @ contribution e (JObj kvs)) rest"
  using assms
  by (auto simp: py_get_obj py_splitext_def contribution_def change_path_def change_diff_def
      allowed_def file_section_def py_str_def split: option.splits)

lemma review_changes_records:
  "list_all is_change_record changes \<Longrightarrow>
     review_changes e prompt changes = Inr (prompt @ concat (map (contribution e) changes))"
proof (induction changes arbitrary: prompt)
  case Nil
  then show ?case by simp
next
  case (Cons change changes)
  from Cons.prems obtain kvs path where c: "change = JObj kvs" "change_path kvs = JStr path"
    by (auto simp: is_change_record_def split: json.splits)
  from Cons.prems have "list_all is_change_record changes" by simp
  from Cons.IH [OF this] c show ?case
    by (simp add: review_changes_record del: review_changes.simps)
qed

lemma allowed_examples: "\<not> allowed (ascii ''README.md'')" "allowed (ascii ''main.go'')"
  by (simp_all add: allowed_def splitext_def code_extensions_def ascii_def lower_def
      lower_char_def)

lemma comment_changes_eq: "comment_changes e prompt changes = review_changes e prompt changes"
  by (induction changes arbitrary: prompt)
    (simp_all add: code_extensions_def comment_code_extensions_def
      split: sum.splits)

lemma review_changes_append:
  "review_changes e (a @ prompt) changes
     = (case review_changes e prompt changes of Inl err \<Rightarrow> Inl err | Inr r \<Rightarrow> Inr (a @ r))"
  by (induction changes arbitrary: prompt) (simp_all split: sum.splits)

section \<open>Review generator: file filter\<close>

text \<open>
  Claim C8. Over change records (objects whose path is a string) the loop of
  \<open>analyze_with_gemini\<close> raises nothing and appends, record by record and in order,
  the section of the record (path and raw diff text) when the lowered extension of its
  path is in the allow-list, and nothing otherwise; the prompt is the opening parts, these
  sections and the closing instruction. A section is never empty, so a record adds text
  exactly when its path passes. \<open>README.md\<close> does not pass; \<open>main.go\<close> passes.
\<close>

theorem file_sections_follow_allow_list:
  "(list_all is_change_record changes \<longrightarrow>
      review_changes e prompt changes = Inr (prompt @ concat (map (contribution e) changes)))
   \<and> (list_all is_change_record changes \<longrightarrow>
        py_get changes_data (ascii ''changes'') (JArr []) = Inr (JArr changes) \<longrightarrow>
      review_prompt e changes_data info up
        = Inr (review_prompt_head @ py_str e (title info) @ description_label
                 @ py_str e (description info) @ prompt_indent
                 @ (case up of
                      Some text \<Rightarrow> if text \<noteq> [] then request_label @ text @ prompt_indent else []
                    | None \<Rightarrow> [])
                 @ files_label @ concat (map (contribution e) changes) @ review_closing))
   \<and> (change_path kvs = JStr path \<longrightarrow>
        contribution e (JObj kvs)
          = (if allowed path
             then file_label @ path @ [0xA] @ diff_label @ py_str e (change_diff kvs) @ [0xA]
             else [])
        \<and> (contribution e (JObj kvs) \<noteq> [] \<longleftrightarrow> allowed path))
   \<and> \<not> allowed (ascii ''README.md'') \<and> allowed (ascii ''main.go'')"
proof (intro conjI impI)
  assume recs: "list_all is_change_record changes"
  then show "review_changes e prompt changes
               = Inr (prompt @ concat (map (contribution e) changes))"
    by (rule review_changes_records)
  assume "py_get changes_data (ascii ''changes'') (JArr []) = Inr (JArr changes)"
  then show "review_prompt e changes_data info up
        = Inr (review_prompt_head @ py_str e (title info) @ description_label
                 @ py_str e (description info) @ prompt_indent
                 @ (case up of
                      Some text \<Rightarrow> if text \<noteq> [] then request_label @ text @ prompt_indent else []
                    | None \<Rightarrow> [])
                 @ files_label @ concat (map (contribution e) changes) @ review_closing)"
    by (simp add: review_prompt_def Let_def py_iter_def review_changes_records [OF recs]
        split: option.splits)
next
  assume "change_path kvs = JStr path"
  then show "contribution e (JObj kvs)
          = (if allowed path
             then file_label @ path @ [0xA] @ diff_label @ py_str e (change_diff kvs) @ [0xA]
             else [])"
    and "contribution e (JObj kvs) \<noteq> [] \<longleftrightarrow> allowed path"
    by (simp_all add: contribution_def file_section_def file_label_def)
qed (rule allowed_examples)+

text \<open>Witness for C8: the changes of \<open>README.md\<close> and \<open>main.go\<close>.\<close>

theorem file_sections_follow_allow_list_witness:
  "review_changes offline [] [readme_change, main_change]
     = Inr (file_label @ ascii ''main.go'' @ [0xA] @ diff_label @ ascii ''+code'' @ [0xA])
   \<and> review_prompt offline example_changes \<lparr>title = JStr (ascii ''Fix''), description = JStr []\<rparr>
        None
     = Inr (review_prompt_head @ ascii ''Fix'' @ description_label @ prompt_indent @ files_label
              @ file_label @ ascii ''main.go'' @ [0xA] @ diff_label @ ascii ''+code'' @ [0xA]
              @ review_closing)
   \<and> contribution offline readme_change = []
   \<and> contribution offline main_change \<noteq> []"
proof -
  let ?kvs = "[(ascii ''old_path'', JStr (ascii ''main.go'')),
               (ascii ''new_path'', JStr (ascii ''main.go'')),
               (ascii ''diff'', JStr (ascii ''+code''))]"
  have paths: "change_path ?kvs = JStr (ascii ''main.go'')"
    "change_path [(ascii ''old_path'', JStr (ascii ''README.md'')),
                  (ascii ''new_path'', JStr (ascii ''README.md'')),
                  (ascii ''diff'', JStr (ascii ''+docs''))] = JStr (ascii ''README.md'')"
    by (simp_all add: change_path_def ascii_simps)
  have recs: "list_all is_change_record [readme_change, main_change]"
    by (simp add: is_change_record_def readme_change_def main_change_def paths)
  have data: "py_get example_changes (ascii ''changes'') (JArr [])
                = Inr (JArr [readme_change, main_change])"
    by (simp add: example_changes_def py_get_obj)
  have diff: "change_diff ?kvs = JStr (ascii ''+code'')"
    by (simp add: change_diff_def ascii_simps)
  from file_sections_follow_allow_list
    [of "[readme_change, main_change]" offline "[]" example_changes
      "\<lparr>title = JStr (ascii ''Fix''), description = JStr []\<rparr>" None ?kvs "ascii ''main.go''"]
    recs data paths(1)
  have "review_changes offline [] [readme_change, main_change]
          = Inr (concat (map (contribution offline) [readme_change, main_change]))"
    and "review_prompt offline example_changes
           \<lparr>title = JStr (ascii ''Fix''), description = JStr []\<rparr> None
          = Inr (review_prompt_head @ ascii ''Fix'' @ description_label @ prompt_indent
                   @ files_label
                   @ concat (map (contribution offline) [readme_change, main_change])
                   @ review_closing)"
    and "contribution offline main_change
          = file_label @ ascii ''main.go'' @ [0xA] @ diff_label @ ascii ''+code'' @ [0xA]"
    and "\<not> allowed (ascii ''README.md'')"
    by (simp_all add: py_str_def main_change_def diff)
  moreover from this(4) have "contribution offline readme_change = []"
    by (simp add: contribution_def readme_change_def paths)
  ultimately show ?thesis
    by (simp add: file_label_def)
qed

section \<open>Review generator: the two prompts\<close>

text \<open>
  Claim C9, as the code has it. On the same input the two prompt builders either raise the
  same exception, or give prompts with one and the same middle part (title, description,
  user request, and the sections of the files that pass the filter, in order) between
  their own opening text and their own closing instruction.
\<close>

theorem prompts_differ_in_head_and_closing:
  "(\<exists>err. review_prompt e changes_data info up = Inl err
          \<and> comment_prompt e changes_data info up = Inl err)
   \<or> (\<exists>middle. review_prompt e changes_data info up
                  = Inr (review_prompt_head @ middle @ review_closing)
               \<and> comment_prompt e changes_data info up
                  = Inr (comment_prompt_head @ middle @ comment_closing))"
proof -
  define rest where "rest = py_str e (title info) @ description_label
      @ py_str e (description info) @ prompt_indent
      @ (case up of
           Some text \<Rightarrow> if text \<noteq> [] then request_label @ text @ prompt_indent else []
         | None \<Rightarrow> [])
      @ files_label"
  have review: "review_prompt e changes_data info up
      = (case py_get changes_data (ascii ''changes'') (JArr []) of
           Inl err \<Rightarrow> Inl err
         | Inr cs \<Rightarrow>
             (case py_iter cs of
                Inl err \<Rightarrow> Inl err
              | Inr changes \<Rightarrow>
                  (case review_changes e (review_prompt_head @ rest) changes of
                     Inl err \<Rightarrow> Inl err
                   | Inr p \<Rightarrow> Inr (p @ review_closing))))"
  proof (cases up)
    case None
    then show ?thesis
      by (simp add: review_prompt_def Let_def rest_def cong: sum.case_cong)
  next
    case (Some request)
    then show ?thesis
      by (cases "request = []") (simp_all add: review_prompt_def Let_def rest_def cong: sum.case_cong)
  qed
  have comment: "comment_prompt e changes_data info up
      = (case py_get changes_data (ascii ''changes'') (JArr []) of
           Inl err \<Rightarrow> Inl err
         | Inr cs \<Rightarrow>
             (case py_iter cs of
                Inl err \<Rightarrow> Inl err
              | Inr changes \<Rightarrow>
                  (case review_changes e (comment_prompt_head @ rest) changes of
                     Inl err \<Rightarrow> Inl err
                   | Inr p \<Rightarrow> Inr (p @ comment_closing))))"
  proof (cases up)
    case None
    then show ?thesis
      by (simp add: comment_prompt_def Let_def rest_def comment_changes_eq cong: sum.case_cong)
  next
    case (Some request)
    then show ?thesis
      by (cases "request = []")
        (simp_all add: comment_prompt_def Let_def rest_def comment_changes_eq
          cong: sum.case_cong)
  qed
  show ?thesis
    unfolding review comment review_changes_append [of e _ rest]
    by (simp split: sum.splits)
qed

text \<open>Witness for C9: the prompts for the two example changes.\<close>

theorem prompts_differ_in_head_and_closing_witness:
  "\<exists>middle. review_prompt offline example_changes
               \<lparr>title = JStr (ascii ''Fix''), description = JStr []\<rparr> (Some (ascii ''why''))
              = Inr (review_prompt_head @ middle @ review_closing)
           \<and> comment_prompt offline example_changes
               \<lparr>title = JStr (ascii ''Fix''), description = JStr []\<rparr> (Some (ascii ''why''))
              = Inr (comment_prompt_head @ middle @ comment_closing)"
proof -
  have "review_prompt offline example_changes
          \<lparr>title = JStr (ascii ''Fix''), description = JStr []\<rparr> (Some (ascii ''why''))
        \<noteq> Inl err" for err
    by (simp add: review_prompt_def Let_def example_changes_def py_get_obj py_iter_def
        readme_change_def main_change_def py_splitext_def splitext_def ascii_def lower_def
        lower_char_def code_extensions_def)
  with prompts_differ_in_head_and_closing
    [of offline example_changes "\<lparr>title = JStr (ascii ''Fix''), description = JStr []\<rparr>"
      "Some (ascii ''why'')"]
  show ?thesis by simp
qed

text \<open>
  Counterexample to C9 as stated: for an empty answer of GitLab the two prompts, each
  without its closing instruction, are not the same text, since their first lines differ.
\<close>

theorem prompt_heads_differ:
  "review_prompt offline (JObj []) \<lparr>title = JStr [], description = JStr []\<rparr> None
     = Inr ((review_prompt_head @ description_label @ prompt_indent @ files_label)
            @ review_closing)
   \<and> comment_prompt offline (JObj []) \<lparr>title = JStr [], description = JStr []\<rparr> None
     = Inr ((comment_prompt_head @ description_label @ prompt_indent @ files_label)
            @ comment_closing)
   \<and> review_prompt_head @ description_label @ prompt_indent @ files_label
       \<noteq> comment_prompt_head @ description_label @ prompt_indent @ files_label"
proof -
  have "review_prompt_head \<noteq> comment_prompt_head"
    by (simp add: review_prompt_head_def comment_prompt_head_def ascii_def)
  then show ?thesis
    by (simp add: review_prompt_def comment_prompt_def Let_def py_get_obj py_iter_def py_str_def)
qed

section \<open>A trigger with nothing after it\<close>

lemma bare_trigger:
  assumes "t \<in> set command_triggers"
  shows "extract_user_prompt t = Some [] \<and> \<not> sublist BOT_SIGNATURE t"
proof -
  from assms consider "t = ascii ''@bot''" | "t = ascii ''/review''" | "t = ascii ''/analyze''"
    by (auto simp: command_triggers_def)
  then show ?thesis
    by cases (simp_all add: extract_user_prompt_def text_defs sublist_simps)
qed

lemma empty_request_omitted:
  "comment_prompt e changes_data info (Some []) = comment_prompt e changes_data info None"
  by (simp add: comment_prompt_def)

lemma review_on_request_run:
  assumes "truthy (snd (get_mr_changes e p i))"
    and "comment_prompt e (snd (get_mr_changes e p i)) (snd (fetch_mr_info e p i)) (Some up)
           = Inr prompt"
  shows "review_on_request e p i u up
     = ([GitLab (GetChanges p i), GitLab (GetMergeRequest p i), Gemini prompt,
         GitLab (PostNote p i
           (comment_head @ BOT_SIGNATURE @ request_comment_title
              @ (case gemini e prompt of
                   Generated answer \<Rightarrow> answer
                 | GenerationFailed reason \<Rightarrow> analysis_error @ reason)
              @ request_comment_by @ py_str e u @ request_comment_tail))],
        Finished (snd (post_comment_to_mr e p i
           (comment_head @ BOT_SIGNATURE @ request_comment_title
              @ (case gemini e prompt of
                   Generated answer \<Rightarrow> answer
                 | GenerationFailed reason \<Rightarrow> analysis_error @ reason)
              @ request_comment_by @ py_str e u @ request_comment_tail))))"
proof -
  have fetch: "fst (get_mr_changes e p i) = [GitLab (GetChanges p i)]"
    and info: "fst (fetch_mr_info e p i) = [GitLab (GetMergeRequest p i)]"
    and post: "fst (post_comment_to_mr e p i c) = [GitLab (PostNote p i c)]" for c
    by (simp_all add: get_mr_changes_def fetch_mr_info_def post_comment_to_mr_def)
  show ?thesis
    using assms
    by (simp add: review_on_request_def perform_def attempt_simps
        analyze_with_gemini_for_comment_def fetch info post)
qed

text \<open>
  Claim C10. For a body that is exactly one of the explicit triggers the extracted
  instruction is the empty string, not \<open>None\<close>. The prompt built with the empty
  instruction is the prompt built without instruction, so it has no user-request section.
  A note with such a body is reviewed unless the handler stops before line 418 (it is
  not a note on a merge request whose iid is found, or an exception is raised): the run
  is the review of lines 449 to 497 with the empty instruction. When the changes are
  fetched and the prompt is built, that review fetches the changes and the merge
  request, sends the prompt without request section to Gemini and posts the comment.
\<close>

theorem bare_trigger_reviews_without_request:
  "(t \<in> set command_triggers \<longrightarrow> command_of t = Some [])
   \<and> comment_prompt e changes_data info (Some []) = comment_prompt e changes_data info None
   \<and> (t \<in> set command_triggers \<longrightarrow>
        py_get d (ascii ''object_attributes'') (JObj []) = Inr n \<longrightarrow>
        py_get n (ascii ''note'') (JStr []) = Inr (JStr t) \<longrightarrow>
        (listing_only (fst (process_note_in_background e d))
           \<and> (snd (process_note_in_background e d) = NotMergeRequestNote
                \<or> (\<exists>err. snd (process_note_in_background e d) = Raised err)))
        \<or> (\<exists>pre p i u. listing_only pre
              \<and> process_note_in_background e d
                  = (pre @ fst (review_on_request e p i u []),
                     snd (review_on_request e p i u []))))
   \<and> (truthy (snd (get_mr_changes e p i)) \<longrightarrow>
        comment_prompt e (snd (get_mr_changes e p i)) (snd (fetch_mr_info e p i)) None
          = Inr prompt \<longrightarrow>
        review_on_request e p i u []
          = ([GitLab (GetChanges p i), GitLab (GetMergeRequest p i), Gemini prompt,
              GitLab (PostNote p i
                (comment_head @ BOT_SIGNATURE @ request_comment_title
                   @ (case gemini e prompt of
                        Generated answer \<Rightarrow> answer
                      | GenerationFailed reason \<Rightarrow> analysis_error @ reason)
                   @ request_comment_by @ py_str e u @ request_comment_tail))],
             Finished (snd (post_comment_to_mr e p i
                (comment_head @ BOT_SIGNATURE @ request_comment_title
                   @ (case gemini e prompt of
                        Generated answer \<Rightarrow> answer
                      | GenerationFailed reason \<Rightarrow> analysis_error @ reason)
                   @ request_comment_by @ py_str e u @ request_comment_tail)))))"
proof (intro conjI impI)
  assume "t \<in> set command_triggers"
  then show "command_of t = Some []"
    using bare_trigger [of t] by (simp add: command_of_def)
next
  show "comment_prompt e changes_data info (Some []) = comment_prompt e changes_data info None"
    by (rule empty_request_omitted)
next
  assume t: "t \<in> set command_triggers"
    and n: "py_get d (ascii ''object_attributes'') (JObj []) = Inr n"
    and body: "py_get n (ascii ''note'') (JStr []) = Inr (JStr t)"
  let ?P = "\<lambda>r. (listing_only (fst r)
           \<and> (snd r = NotMergeRequestNote \<or> (\<exists>err. snd r = Raised err)))
        \<or> (\<exists>pre p i u. listing_only pre
              \<and> r = (pre @ fst (review_on_request e p i u []),
                     snd (review_on_request e p i u [])))"
  show "?P (process_note_in_background e d)"
  proof (rule process_note_cases [where P = ?P and e = e and d = d], goal_cases)
    case (1 pre out)
    from 1(3) [OF n body] bare_trigger [OF t]
    have "out \<noteq> SkippedBotComment" "out \<noteq> NoCommand"
      by simp_all
    with 1(2) have "out = NotMergeRequestNote \<or> (\<exists>err. out = Raised err)"
      by blast
    with 1(1) show ?case by simp
  next
    case (2 pre n' body' project_id mr_iid author user_prompt)
    with n body bare_trigger [OF t] have "user_prompt = []"
      by simp
    with 2(5) show ?case
      by (intro disjI2 exI [of _ pre] exI [of _ project_id] exI [of _ mr_iid]
          exI [of _ author]) simp
  qed
next
  assume "truthy (snd (get_mr_changes e p i))"
    and "comment_prompt e (snd (get_mr_changes e p i)) (snd (fetch_mr_info e p i)) None
          = Inr prompt"
  then show "review_on_request e p i u []
          = ([GitLab (GetChanges p i), GitLab (GetMergeRequest p i), Gemini prompt,
              GitLab (PostNote p i
                (comment_head @ BOT_SIGNATURE @ request_comment_title
                   @ (case gemini e prompt of
                        Generated answer \<Rightarrow> answer
                      | GenerationFailed reason \<Rightarrow> analysis_error @ reason)
                   @ request_comment_by @ py_str e u @ request_comment_tail))],
             Finished (snd (post_comment_to_mr e p i
                (comment_head @ BOT_SIGNATURE @ request_comment_title
                   @ (case gemini e prompt of
                        Generated answer \<Rightarrow> answer
                      | GenerationFailed reason \<Rightarrow> analysis_error @ reason)
                   @ request_comment_by @ py_str e u @ request_comment_tail))))"
    by (simp add: review_on_request_run empty_request_omitted)
qed

text \<open>Witness for C10: a \<open>/review\<close> note while GitLab and Gemini answer.\<close>

theorem bare_trigger_reviews_without_request_witness:
  "command_of (ascii ''/review'') = Some []
   \<and> process_note_in_background serving (note_event (ascii ''/review''))
      = ([GitLab (GetChanges (JInt 1) (JInt 7)), GitLab (GetMergeRequest (JInt 1) (JInt 7)),
          Gemini (comment_prompt_head @ ascii ''Fix'' @ description_label @ prompt_indent
                    @ files_label @ file_label @ ascii ''main.go'' @ [0xA] @ diff_label
                    @ ascii ''+code'' @ [0xA] @ comment_closing),
          GitLab (PostNote (JInt 1) (JInt 7)
                    (comment_head @ BOT_SIGNATURE @ request_comment_title @ ascii ''LGTM''
                       @ request_comment_by @ ascii ''alice'' @ request_comment_tail))],
         Finished True)
   \<and> \<not> sublist request_label
         (comment_prompt_head @ ascii ''Fix'' @ description_label @ prompt_indent
            @ files_label @ file_label @ ascii ''main.go'' @ [0xA] @ diff_label
            @ ascii ''+code'' @ [0xA] @ comment_closing)"
proof -
  let ?prompt = "comment_prompt_head @ ascii ''Fix'' @ description_label @ prompt_indent
                    @ files_label @ file_label @ ascii ''main.go'' @ [0xA] @ diff_label
                    @ ascii ''+code'' @ [0xA] @ comment_closing"
  let ?n = "JObj [(ascii ''id'', JInt 5), (ascii ''note'', JStr (ascii ''/review'')),
                  (ascii ''noteable_type'', JStr (ascii ''MergeRequest'')),
                  (ascii ''noteable_id'', JInt 70), (ascii ''noteable_iid'', JInt 7)]"
  have trigger: "ascii ''/review'' \<in> set command_triggers"
    by (simp add: command_triggers_def)
  have changes: "snd (get_mr_changes serving (JInt 1) (JInt 7)) = example_changes"
    by (simp add: get_mr_changes_def serving_def)
  have info: "snd (fetch_mr_info serving (JInt 1) (JInt 7))
                = \<lparr>title = JStr (ascii ''Fix''), description = JStr []\<rparr>"
    by (simp add: fetch_mr_info_def serving_def py_get_obj ascii_simps)
  have fetched: "truthy (snd (get_mr_changes serving (JInt 1) (JInt 7)))"
    by (simp add: changes truthy_def example_changes_def)
  have loop: "comment_changes serving p [readme_change, main_change]
                = Inr (p @ file_label @ ascii ''main.go'' @ [0xA] @ diff_label
                         @ ascii ''+code'' @ [0xA])" for p
    by (simp add: readme_change_def main_change_def py_get_obj py_splitext_def splitext_def
        comment_code_extensions_def py_str_def lower_def lower_char_def ascii_def)
  have prompt: "comment_prompt serving (snd (get_mr_changes serving (JInt 1) (JInt 7)))
                  (snd (fetch_mr_info serving (JInt 1) (JInt 7))) None = Inr ?prompt"
    by (simp add: changes info comment_prompt_def Let_def example_changes_def py_get_obj
        py_iter_def loop py_str_def del: comment_changes.simps)
  have attrs: "py_get (note_event (ascii ''/review'')) (ascii ''object_attributes'') (JObj [])
                 = Inr ?n"
    by (simp add: note_event_def py_get_obj ascii_simps)
  have body: "py_get ?n (ascii ''note'') (JStr []) = Inr (JStr (ascii ''/review''))"
    by (simp add: py_get_obj ascii_simps)
  have start: "process_note_in_background serving (note_event (ascii ''/review''))
                 = review_on_request serving (JInt 1) (JInt 7) (JStr (ascii ''alice'')) []"
    using bare_trigger [OF trigger]
    by (simp add: process_note_in_background_def note_event_def py_get_obj ascii_simps
        attempt_simps perform_def resolve_mr_iid_def py_slice_def has_signature_def
        py_extract_user_prompt_def)
  have absent: "\<not> sublist request_label ?prompt"
    by (simp add: comment_prompt_head_def description_label_def prompt_indent_def
        files_label_def file_label_def diff_label_def comment_closing_def request_label_def
        ascii_def sublist_simps)
  from bare_trigger_reviews_without_request
    [of "ascii ''/review''" serving example_changes "\<lparr>title = JStr [], description = JStr []\<rparr>"
      "note_event (ascii ''/review'')" ?n "JInt 1" "JInt 7" ?prompt "JStr (ascii ''alice'')"]
    trigger fetched prompt
  have "command_of (ascii ''/review'') = Some []"
    and "review_on_request serving (JInt 1) (JInt 7) (JStr (ascii ''alice'')) []
          = ([GitLab (GetChanges (JInt 1) (JInt 7)), GitLab (GetMergeRequest (JInt 1) (JInt 7)),
              Gemini ?prompt,
              GitLab (PostNote (JInt 1) (JInt 7)
                    (comment_head @ BOT_SIGNATURE @ request_comment_title @ ascii ''LGTM''
                       @ request_comment_by @ ascii ''alice'' @ request_comment_tail))],
             Finished True)"
    by (simp_all add: serving_def post_comment_to_mr_def py_str_def)
  with start absent show ?thesis
    by simp
qed

end
